theory Spec2Isabelle
  imports Main "HOL-Library.Sublist"
begin

chapter \<open>The Antigravity quota handler (internal/api/handlers/management/antigravity_quota.go)\<close>

text \<open>
  A shallow embedding of the quota handler. Every function of the Go file that decides
  an outcome is a HOL function of the same name. What the handler cannot compute by
  itself comes in as a parameter:
  \<^item> the network, as a record of oracles (\<open>Network\<close>): for each request the handler can
    send, the response it gets;
  \<^item> the functions of Go's standard library whose results the handler branches on
    (\<open>json.Unmarshal\<close>, \<open>fmt.Sscanf\<close>, \<open>time.Parse\<close>), as a record \<open>Library\<close>;
  \<^item> the clock, as one reading \<open>now\<close>;
  \<^item> the order in which the goroutines deliver their results, as a completion rank.
  Every function that talks to the network returns, next to its result, the list of calls
  it made, in order. Log output is not modelled.
\<close>

section \<open>Go primitives\<close>

subsection \<open>strings.Contains\<close>

fun Contains :: "string \<Rightarrow> string \<Rightarrow> bool" where
  "Contains [] substr = (substr = [])"
| "Contains (c # s) substr = (prefix substr (c # s) \<or> Contains s substr)"

subsection \<open>The verb %d of fmt.Errorf, on an int\<close>

fun decimal :: "nat \<Rightarrow> string" where
  "decimal n =
     (if n < 10 then [''0123456789'' ! n]
      else decimal (n div 10) @ [''0123456789'' ! (n mod 10)])"

declare decimal.simps [simp del]

definition fmt_d :: "int \<Rightarrow> string" where
  "fmt_d i = (if i < 0 then CHR ''-'' # decimal (nat (- i)) else decimal (nat i))"

subsection \<open>float64\<close>

text \<open>
  An IEEE 754 binary64 value. \<open>Finite s m e\<close> is \<open>(-1)\<^sup>s \<sqdot> m \<sqdot> 2\<^sup>e\<close>; the operations below
  return \<open>m < 2\<^sup>5\<^sup>3\<close> and \<open>-1074 \<le> e \<le> 971\<close>, with \<open>2\<^sup>5\<^sup>2 \<le> m\<close> unless \<open>e = -1074\<close>
  (zero and the subnormal numbers). Every operation computes the exact rational result
  as a fraction \<open>n / d\<close> and rounds it to the nearest representable value, ties to even,
  as Go's \<open>float64\<close> arithmetic and conversions do.
\<close>

datatype float64 = Finite bool nat int | Infinite bool | NaN

fun bit_length :: "nat \<Rightarrow> nat" where
  "bit_length n = (if n = 0 then 0 else Suc (bit_length (n div 2)))"

declare bit_length.simps [simp del]

definition scale_fraction :: "nat \<Rightarrow> nat \<Rightarrow> int \<Rightarrow> nat \<times> nat" where
  \<comment> \<open>the fraction \<open>(n / d) / 2\<^sup>e\<close>\<close>
  "scale_fraction n d e = (if 0 \<le> e then (n, d * 2 ^ nat e) else (n * 2 ^ nat (- e), d))"

definition floor_log2 :: "nat \<Rightarrow> nat \<Rightarrow> int" where
  \<comment> \<open>\<open>\<lfloor>log\<^sub>2 (n / d)\<rfloor>\<close>, for \<open>0 < n\<close> and \<open>0 < d\<close>\<close>
  "floor_log2 n d =
     (let k = int (bit_length n) - int (bit_length d)
      in case scale_fraction n d k of (n', d') \<Rightarrow> if d' \<le> n' then k else k - 1)"

definition round_half_even :: "nat \<Rightarrow> nat \<Rightarrow> nat" where
  "round_half_even n d =
     (let q = n div d; r = n mod d
      in if 2 * r < d then q else if d < 2 * r then q + 1 else if even q then q else q + 1)"

definition round_float64 :: "bool \<Rightarrow> nat \<Rightarrow> nat \<Rightarrow> float64" where
  "round_float64 s n d =
     (if n = 0 then Finite s 0 (- 1074)
      else let e = max (floor_log2 n d - 52) (- 1074)
           in case scale_fraction n d e of (n', d') \<Rightarrow>
                let m = round_half_even n' d'
                in if 971 < e then Infinite s
                   else if m = 2 ^ 53
                     then (if e = 971 then Infinite s else Finite s (2 ^ 52) (e + 1))
                   else Finite s m e)"

definition float64_of_int :: "int \<Rightarrow> float64" where
  \<comment> \<open>the conversion \<open>float64(i)\<close>\<close>
  "float64_of_int i = round_float64 (i < 0) (nat \<bar>i\<bar>) 1"

definition float64_of_decimal :: "nat \<Rightarrow> nat \<Rightarrow> float64" where
  \<comment> \<open>the value a decoder gives the non-negative decimal number \<open>n / d\<close>: the nearest float64\<close>
  "float64_of_decimal n d = round_float64 False n d"

definition float64_mul :: "float64 \<Rightarrow> float64 \<Rightarrow> float64" where
  "float64_mul a b =
     (case (a, b) of
        (Finite s m e, Finite t m' e') \<Rightarrow>
          (case scale_fraction (m * m') 1 (- (e + e')) of (n, d) \<Rightarrow> round_float64 (s \<noteq> t) n d)
      | (Finite s m e, Infinite t) \<Rightarrow> if m = 0 then NaN else Infinite (s \<noteq> t)
      | (Infinite s, Finite t m' e') \<Rightarrow> if m' = 0 then NaN else Infinite (s \<noteq> t)
      | (Infinite s, Infinite t) \<Rightarrow> Infinite (s \<noteq> t)
      | _ \<Rightarrow> NaN)"

definition float64_div :: "float64 \<Rightarrow> float64 \<Rightarrow> float64" where
  "float64_div a b =
     (case (a, b) of
        (Finite s m e, Finite t m' e') \<Rightarrow>
          if m' = 0 then (if m = 0 then NaN else Infinite (s \<noteq> t))
          else (case scale_fraction m m' (- (e - e')) of (n, d) \<Rightarrow> round_float64 (s \<noteq> t) n d)
      | (Finite s m e, Infinite t) \<Rightarrow> Finite (s \<noteq> t) 0 (- 1074)
      | (Infinite s, Finite t m' e') \<Rightarrow> Infinite (s \<noteq> t)
      | _ \<Rightarrow> NaN)"

section \<open>The data model\<close>

type_synonym time = int

text \<open>The result entities (lines 32-58).\<close>

record ModelQuota =
  Model :: string
  DisplayName :: string
  RemainingPercent :: float64
  ResetTime :: string

record AccountQuota =
  Email :: string
  ProjectID :: string
  Status :: string
  ModelQuotas :: "ModelQuota list"
  Error :: string
  LastUpdated :: time

record AntigravityQuotaResponse =
  TotalAccounts :: int
  ActiveAccounts :: int
  InactiveAccounts :: int
  ErrorAccounts :: int
  Accounts :: "AccountQuota list"
  ReportLastUpdated :: time

text \<open>
  The two response shapes of the quota API (lines 64-87), with the fields under their JSON
  names. A pointer field is an \<open>option\<close>. The map of the second shape is the list of its
  entries in the order in which the \<open>range\<close> loop of \<open>buildQuotasFromMap\<close> visits them.
\<close>

record RateLimit =
  rpmLimit :: int
  tpmLimit :: int
  remainingRpm :: int
  remainingTpm :: int
  resetTimeStamp :: string

record ModelEntry =
  model :: string
  rateLimit :: RateLimit

record QuotaInfo =
  remainingFraction :: "float64 option"
  resetTime :: "string option"

record ModelInfo =
  quotaInfo :: "QuotaInfo option"

record tokenRefreshResponse =
  AccessToken :: string
  ExpiresIn :: int
  TokenType :: string
  RefreshToken :: string

text \<open>
  An HTTP response as the handler reads it: the status code, \<open>resp.Header.Get\<close> (the empty
  string for a header that is absent), the bytes \<open>io.ReadAll\<close> returns and its error.
  \<open>httpClient.Do\<close> returns an error (\<open>Inl\<close>, the message) or a response.
\<close>

record Response =
  StatusCode :: int
  Header_Get :: "string \<Rightarrow> string"
  Body :: string
  ReadErr :: "string option"

record Network =
  post_fetchAvailableModels :: "string \<Rightarrow> string \<Rightarrow> string + Response"
    \<comment> \<open>endpoint, access token\<close>
  post_generateContent :: "string \<Rightarrow> string \<Rightarrow> string \<Rightarrow> string \<Rightarrow> string + Response"
    \<comment> \<open>endpoint, access token, project, model\<close>
  post_token :: "string \<Rightarrow> string + Response"
    \<comment> \<open>refresh token\<close>

record Library =
  Unmarshal_Array :: "string \<Rightarrow> ModelEntry list option"
    \<comment> \<open>\<open>json.Unmarshal\<close> into \<open>fetchAvailableModelsResponseArray\<close>: its \<open>Models\<close>, or an error\<close>
  Unmarshal_Map :: "string \<Rightarrow> (string \<times> ModelInfo) list option"
    \<comment> \<open>\<open>json.Unmarshal\<close> into \<open>fetchAvailableModelsResponseMap\<close>\<close>
  Decode_Token :: "Response \<Rightarrow> string + tokenRefreshResponse"
    \<comment> \<open>\<open>json.NewDecoder(resp.Body).Decode\<close> into \<open>tokenRefreshResponse\<close>\<close>
  Sscanf_d :: "string \<Rightarrow> int option"
    \<comment> \<open>\<open>fmt.Sscanf(s, "%d", &n)\<close>: the int scanned, or an error\<close>
  Parse_RFC3339 :: "string \<Rightarrow> time option"
    \<comment> \<open>\<open>time.Parse(time.RFC3339, s)\<close>\<close>

text \<open>The calls a resolution task makes on the outside world, in the order it makes them.\<close>

datatype call =
    QuotaCall string string
  | GenerateCall string string string string
  | RefreshCall string
  | UpdateAuthToken string string int

section \<open>The primary quota endpoint\<close>

text \<open>\<open>getDisplayName\<close> (lines 501-525).\<close>

definition getDisplayName :: "string \<Rightarrow> string" where
  "getDisplayName modelName =
     (if modelName = ''gemini-2.5-pro'' then ''Gemini 2.5 Pro''
      else if modelName = ''gemini-2.5-flash'' then ''Gemini 2.5 Flash''
      else if modelName = ''gemini-2.0-flash'' then ''Gemini 2.0 Flash''
      else if modelName = ''gemini-2.0-flash-lite'' then ''Gemini 2.0 Flash Lite''
      else if modelName = ''gemini-2.0-flash-exp'' then ''Gemini 2.0 Flash Exp''
      else if modelName = ''gemini-exp-1206'' then ''Gemini Exp''
      else if modelName = ''gemini-claude-sonnet-4-5''
            \<or> modelName = ''gemini-claude-sonnet-4-5-thinking'' then ''Claude Sonnet 4.5''
      else if modelName = ''gemini-claude-opus-4-5''
            \<or> modelName = ''gemini-claude-opus-4-5-thinking'' then ''Claude Opus 4.5''
      else if modelName = ''imagen-3.0-generate-002'' then ''Imagen 3''
      else modelName)"

text \<open>
  \<open>buildQuotasFromArray\<close> (lines 436-464): the loop over \<open>apiResp.Models\<close>, with the
  slice \<open>modelQuotas\<close> it appends to, and the function.
\<close>

fun buildQuotasFromArray_loop :: "ModelEntry list \<Rightarrow> ModelQuota list \<Rightarrow> ModelQuota list" where
  "buildQuotasFromArray_loop [] modelQuotas = modelQuotas"
| "buildQuotasFromArray_loop (m # rest) modelQuotas =
     (if rpmLimit (rateLimit m) = 0 then buildQuotasFromArray_loop rest modelQuotas
      else
        let remainingPercent =
              float64_mul
                (float64_div (float64_of_int (remainingRpm (rateLimit m)))
                   (float64_of_int (rpmLimit (rateLimit m))))
                (float64_of_int 100);
            displayName = getDisplayName (model m)
        in buildQuotasFromArray_loop rest
             (modelQuotas @
              [\<lparr>Model = model m, DisplayName = displayName,
                RemainingPercent = remainingPercent,
                ResetTime = resetTimeStamp (rateLimit m)\<rparr>]))"

definition buildQuotasFromArray ::
  "time \<Rightarrow> string \<Rightarrow> string \<Rightarrow> ModelEntry list \<Rightarrow> string + AccountQuota" where
  "buildQuotasFromArray now email projectID apiResp =
     Inr \<lparr>Email = email, ProjectID = projectID, Status = ''active'',
          ModelQuotas = buildQuotasFromArray_loop apiResp [], Error = [],
          LastUpdated = now\<rparr>"

text \<open>\<open>buildQuotasFromMap\<close> (lines 466-499).\<close>

fun buildQuotasFromMap_loop ::
  "(string \<times> ModelInfo) list \<Rightarrow> ModelQuota list \<Rightarrow> ModelQuota list" where
  "buildQuotasFromMap_loop [] modelQuotas = modelQuotas"
| "buildQuotasFromMap_loop ((modelName, modelInfo) # rest) modelQuotas =
     (case quotaInfo modelInfo of
        None \<Rightarrow> buildQuotasFromMap_loop rest modelQuotas
      | Some info \<Rightarrow>
          (case remainingFraction info of
             None \<Rightarrow> buildQuotasFromMap_loop rest modelQuotas
           | Some fraction \<Rightarrow>
               let remainingPercent = float64_mul fraction (float64_of_int 100);
                   displayName = getDisplayName modelName;
                   reset = (case resetTime info of None \<Rightarrow> [] | Some t \<Rightarrow> t)
               in buildQuotasFromMap_loop rest
                    (modelQuotas @
                     [\<lparr>Model = modelName, DisplayName = displayName,
                       RemainingPercent = remainingPercent, ResetTime = reset\<rparr>])))"

definition buildQuotasFromMap ::
  "time \<Rightarrow> string \<Rightarrow> string \<Rightarrow> (string \<times> ModelInfo) list \<Rightarrow> string + AccountQuota" where
  "buildQuotasFromMap now email projectID apiResp =
     Inr \<lparr>Email = email, ProjectID = projectID, Status = ''active'',
          ModelQuotas = buildQuotasFromMap_loop apiResp [], Error = [],
          LastUpdated = now\<rparr>"

text \<open>
  \<open>callQuotaEndpoint\<close> (lines 361-434). An error is its message. The request is built from
  a constant method and one of the constant endpoints, so \<open>http.NewRequestWithContext\<close>
  does not fail.
\<close>

definition callQuotaEndpoint ::
  "Library \<Rightarrow> Network \<Rightarrow> time \<Rightarrow> string \<Rightarrow> string \<Rightarrow> string \<Rightarrow> string
    \<Rightarrow> (string + AccountQuota) \<times> call list" where
  "callQuotaEndpoint lib net now endpoint email projectID accessToken =
     (let calls = [QuotaCall endpoint accessToken]
      in case post_fetchAvailableModels net endpoint accessToken of
           Inl err \<Rightarrow> (Inl (''execute request: '' @ err), calls)
         | Inr resp \<Rightarrow>
             (case ReadErr resp of
                Some err \<Rightarrow> (Inl (''read response: '' @ err), calls)
              | None \<Rightarrow>
                  let respBody = Body resp
                  in if StatusCode resp = 401
                       then (Inl ''unauthorized: access token expired'', calls)
                     else if StatusCode resp = 403
                       then (Inl (''forbidden: '' @ respBody), calls)
                     else if StatusCode resp = 404
                       then (Inl ''404: endpoint not found'', calls)
                     else if StatusCode resp \<noteq> 200
                       then (Inl (''API returned '' @ fmt_d (StatusCode resp) @ '': '' @ respBody),
                             calls)
                     else
                       let responsePreview =
                             (if length respBody > 500 then take 500 respBody @ ''...''
                              else respBody);
                           parsedArray =
                             (case Unmarshal_Array lib respBody of
                                Some models \<Rightarrow> if length models > 0 then Some models else None
                              | None \<Rightarrow> None);
                           parsedMap =
                             (case Unmarshal_Map lib respBody of
                                Some models \<Rightarrow> if length models > 0 then Some models else None
                              | None \<Rightarrow> None)
                       in case parsedArray of
                            Some models \<Rightarrow> (buildQuotasFromArray now email projectID models, calls)
                          | None \<Rightarrow>
                              (case parsedMap of
                                 Some models \<Rightarrow>
                                   (buildQuotasFromMap now email projectID models, calls)
                               | None \<Rightarrow>
                                   (Inl (''parse response: failed to parse as array or map format. Response: ''
                                         @ responsePreview), calls))))"

section \<open>The header probe\<close>

text \<open>
  \<open>extractQuotaForModel\<close> (lines 637-769). \<open>json.Marshal\<close> of the request body and
  \<open>http.NewRequestWithContext\<close> do not fail on these arguments. The status code and the
  body are read for the log only.
\<close>

definition extractQuotaForModel_displayName :: "string \<Rightarrow> string" where
  \<comment> \<open>the switch of lines 739-759\<close>
  "extractQuotaForModel_displayName modelName =
     (if modelName = ''gemini-2.5-pro'' then ''Gemini 2.5 Pro''
      else if modelName = ''gemini-2.5-flash'' then ''Gemini 2.5 Flash''
      else if modelName = ''gemini-2.0-flash'' then ''Gemini 2.0 Flash''
      else if modelName = ''gemini-2.0-flash-lite'' then ''Gemini 2.0 Flash Lite''
      else if modelName = ''gemini-2.0-flash-exp'' then ''Gemini 2.0 Flash Exp''
      else if modelName = ''gemini-exp-1206'' then ''Gemini Exp''
      else if modelName = ''gemini-claude-sonnet-4-5''
            \<or> modelName = ''gemini-claude-sonnet-4-5-thinking'' then ''Claude Sonnet 4.5''
      else if modelName = ''gemini-claude-opus-4-5''
            \<or> modelName = ''gemini-claude-opus-4-5-thinking'' then ''Claude Opus 4.5''
      else if modelName = ''imagen-3.0-generate-002'' then ''Imagen 3''
      else modelName)"

definition generateEndpoint :: "string \<Rightarrow> string \<Rightarrow> string" where
  \<comment> \<open>lines 665-671\<close>
  "generateEndpoint email projectID =
     (let baseURL =
            (if Contains projectID ''daily'' \<or> Contains email ''daily''
             then ''https://daily-cloudcode-pa.googleapis.com''
             else ''https://cloudcode-pa.googleapis.com'')
      in baseURL @ ''/v1internal:generateContent'')"

definition extractQuotaForModel ::
  "Library \<Rightarrow> Network \<Rightarrow> string \<Rightarrow> string \<Rightarrow> string \<Rightarrow> string
    \<Rightarrow> (string + ModelQuota option) \<times> call list" where
  "extractQuotaForModel lib net email projectID accessToken modelName =
     (let endpoint = generateEndpoint email projectID;
          calls = [GenerateCall endpoint accessToken projectID modelName]
      in case post_generateContent net endpoint accessToken projectID modelName of
           Inl err \<Rightarrow> (Inl (''execute request: '' @ err), calls)
         | Inr resp \<Rightarrow>
             let limitHeader = Header_Get resp ''X-RateLimit-Limit'';
                 remainingHeader = Header_Get resp ''X-RateLimit-Remaining'';
                 resetHeader = Header_Get resp ''X-RateLimit-Reset''
             in if limitHeader = [] \<or> remainingHeader = [] then (Inr None, calls)
                else
                  (case Sscanf_d lib limitHeader of
                     None \<Rightarrow> (Inr None, calls)
                   | Some limit \<Rightarrow>
                       if limit = 0 then (Inr None, calls)
                       else
                         (case Sscanf_d lib remainingHeader of
                            None \<Rightarrow> (Inr None, calls)
                          | Some remaining \<Rightarrow>
                              let remainingPercent =
                                    float64_mul
                                      (float64_div (float64_of_int remaining)
                                         (float64_of_int limit))
                                      (float64_of_int 100);
                                  displayName = extractQuotaForModel_displayName modelName
                              in (Inr (Some \<lparr>Model = modelName, DisplayName = displayName,
                                              RemainingPercent = remainingPercent,
                                              ResetTime = resetHeader\<rparr>), calls))))"

text \<open>\<open>fetchQuotaFromHeaders\<close> (lines 594-635): the list of models, the loop, the function.\<close>

definition modelsToCheck :: "string list" where
  "modelsToCheck =
     [''gemini-2.5-pro'', ''gemini-2.5-flash'', ''gemini-2.0-flash'', ''gemini-2.0-flash-lite'',
      ''gemini-exp-1206'', ''gemini-claude-sonnet-4-5'', ''gemini-claude-opus-4-5'',
      ''imagen-3.0-generate-002'']"

fun fetchQuotaFromHeaders_loop ::
  "Library \<Rightarrow> Network \<Rightarrow> string \<Rightarrow> string \<Rightarrow> string \<Rightarrow> string list \<Rightarrow> ModelQuota list
    \<Rightarrow> ModelQuota list \<times> call list" where
  "fetchQuotaFromHeaders_loop lib net email projectID accessToken [] modelQuotas =
     (modelQuotas, [])"
| "fetchQuotaFromHeaders_loop lib net email projectID accessToken (modelName # rest) modelQuotas =
     (case extractQuotaForModel lib net email projectID accessToken modelName of
        (Inl err, calls) \<Rightarrow>
          (case fetchQuotaFromHeaders_loop lib net email projectID accessToken rest modelQuotas of
             (qs, calls') \<Rightarrow> (qs, calls @ calls'))
      | (Inr None, calls) \<Rightarrow>
          (case fetchQuotaFromHeaders_loop lib net email projectID accessToken rest modelQuotas of
             (qs, calls') \<Rightarrow> (qs, calls @ calls'))
      | (Inr (Some quota), calls) \<Rightarrow>
          (case fetchQuotaFromHeaders_loop lib net email projectID accessToken rest
                  (modelQuotas @ [quota]) of
             (qs, calls') \<Rightarrow> (qs, calls @ calls')))"

definition fetchQuotaFromHeaders ::
  "Library \<Rightarrow> Network \<Rightarrow> string \<Rightarrow> string \<Rightarrow> string
    \<Rightarrow> (string + ModelQuota list) \<times> call list" where
  "fetchQuotaFromHeaders lib net email projectID accessToken =
     (case fetchQuotaFromHeaders_loop lib net email projectID accessToken modelsToCheck [] of
        (modelQuotas, calls) \<Rightarrow>
          if length modelQuotas = 0
          then (Inl ''no quota information extracted from headers'', calls)
          else (Inr modelQuotas, calls))"

section \<open>The endpoint fallback\<close>

text \<open>
  \<open>fetchQuotaForAccount\<close> (lines 280-359): the candidate endpoints, the code after the loop
  (\<open>allEndpointsFailed\<close>, on \<open>lastError\<close>), the loop, the function.
\<close>

definition endpoints :: "string list" where
  "endpoints =
     [''https://daily-cloudcode-pa.googleapis.com/v1internal:fetchAvailableModels'',
      ''https://daily-cloudcode-pa.sandbox.googleapis.com/v1internal:fetchAvailableModels'',
      ''https://cloudcode-pa.googleapis.com/v1internal:fetchAvailableModels'']"

definition allEndpointsFailed :: "time \<Rightarrow> string \<Rightarrow> string \<Rightarrow> string option \<Rightarrow> AccountQuota" where
  "allEndpointsFailed now email projectID lastError =
     (let errorMsg = (case lastError of None \<Rightarrow> ''Failed to fetch quota'' | Some err \<Rightarrow> err)
      in \<lparr>Email = email, ProjectID = projectID, Status = ''error'', ModelQuotas = [],
          Error = errorMsg, LastUpdated = now\<rparr>)"

fun fetchQuotaForAccount_loop ::
  "Library \<Rightarrow> Network \<Rightarrow> time \<Rightarrow> string \<Rightarrow> string \<Rightarrow> string \<Rightarrow> string list \<Rightarrow> string option
    \<Rightarrow> AccountQuota \<times> call list" where
  "fetchQuotaForAccount_loop lib net now email projectID accessToken [] lastError =
     (allEndpointsFailed now email projectID lastError, [])"
| "fetchQuotaForAccount_loop lib net now email projectID accessToken (endpoint # rest) lastError =
     (case callQuotaEndpoint lib net now endpoint email projectID accessToken of
        (Inr quota, calls) \<Rightarrow> (quota, calls)
      | (Inl err, calls) \<Rightarrow>
          if Contains err ''unauthorized'' \<or> Contains err ''access token expired'' then
            (\<lparr>Email = email, ProjectID = projectID, Status = ''inactive'', ModelQuotas = [],
              Error = ''Access token expired. Please re-login: CLIProxyAPI -antigravity-login'',
              LastUpdated = now\<rparr>, calls)
          else if Contains err ''forbidden'' \<or> Contains err ''banned'' then
            (case fetchQuotaFromHeaders lib net email projectID accessToken of
               (Inr quotas, calls') \<Rightarrow>
                 (\<lparr>Email = email, ProjectID = projectID, Status = ''active'',
                   ModelQuotas = quotas, Error = [], LastUpdated = now\<rparr>, calls @ calls')
             | (Inl fallbackErr, calls') \<Rightarrow>
                 (\<lparr>Email = email, ProjectID = projectID, Status = ''inactive'', ModelQuotas = [],
                   Error = ''Access forbidden and fallback failed: '' @ fallbackErr,
                   LastUpdated = now\<rparr>, calls @ calls'))
          else if \<not> Contains err ''404'' then
            (allEndpointsFailed now email projectID (Some err), calls)
          else
            (case fetchQuotaForAccount_loop lib net now email projectID accessToken rest (Some err) of
               (quota, calls') \<Rightarrow> (quota, calls @ calls')))"

definition fetchQuotaForAccount ::
  "Library \<Rightarrow> Network \<Rightarrow> time \<Rightarrow> string \<Rightarrow> string \<Rightarrow> string \<Rightarrow> AccountQuota \<times> call list" where
  "fetchQuotaForAccount lib net now email projectID accessToken =
     fetchQuotaForAccount_loop lib net now email projectID accessToken endpoints None"

section \<open>The token refresh\<close>

text \<open>
  \<open>refreshAccessToken\<close> (lines 527-564); on a status other than 200 the body is read with
  the read error dropped. \<open>updateAuthToken\<close> (lines 566-592) writes to the credential
  store, which is outside this file: the model records the call.
\<close>

definition refreshAccessToken ::
  "Library \<Rightarrow> Network \<Rightarrow> string \<Rightarrow> (string + string \<times> int) \<times> call list" where
  "refreshAccessToken lib net refreshTok =
     (let calls = [RefreshCall refreshTok]
      in case post_token net refreshTok of
           Inl err \<Rightarrow> (Inl (''execute refresh request: '' @ err), calls)
         | Inr resp \<Rightarrow>
             if StatusCode resp \<noteq> 200 then
               (Inl (''refresh token failed: status '' @ fmt_d (StatusCode resp) @ '': ''
                     @ Body resp), calls)
             else
               (case Decode_Token lib resp of
                  Inl err \<Rightarrow> (Inl (''parse refresh response: '' @ err), calls)
                | Inr tokenResp \<Rightarrow>
                    (Inr (AccessToken tokenResp, ExpiresIn tokenResp), calls)))"

definition updateAuthToken :: "string \<Rightarrow> string \<Rightarrow> int \<Rightarrow> call list" where
  "updateAuthToken authID newAccessToken expiresIn =
     [UpdateAuthToken authID newAccessToken expiresIn]"

section \<open>The handler\<close>

text \<open>
  A credential record of the auth manager, with the fields the handler reads. A value of
  the attribute map has Go's type \<open>any\<close>; the handler only asks whether it is a string.
  \<open>Metadata\<close> is \<open>None\<close> for a nil map.
\<close>

datatype any = StringValue string | OtherValue

record Auth =
  ID :: string
  Provider :: string
  Metadata :: "(string \<rightharpoonup> any) option"

text \<open>The type assertion \<open>m[key].(string)\<close>: the string and \<open>ok\<close>.\<close>

definition stringAt :: "(string \<rightharpoonup> any) \<Rightarrow> string \<Rightarrow> string option" where
  "stringAt m key = (case m key of Some (StringValue v) \<Rightarrow> Some v | _ \<Rightarrow> None)"

text \<open>The element type of \<open>antigravityAuths\<close> (lines 101-108).\<close>

record antigravityAuth =
  auth_email :: string
  auth_projectID :: string
  auth_accessToken :: string
  auth_refreshToken :: string
  auth_authID :: string
  auth_expired :: bool

text \<open>
  The body of the selection loop (lines 110-185) on one record: \<open>None\<close> where the loop
  continues without appending.
\<close>

definition selectAuth :: "Library \<Rightarrow> time \<Rightarrow> Auth \<Rightarrow> antigravityAuth option" where
  "selectAuth lib now auth =
     (let isAntigravity =
            (Provider auth = ''antigravity'' \<or>
             (case Metadata auth of
                None \<Rightarrow> False
              | Some m \<Rightarrow> stringAt m ''type'' = Some ''antigravity''))
      in if \<not> isAntigravity then None
         else
           let field = (\<lambda>key. case Metadata auth of
                                 None \<Rightarrow> []
                               | Some m \<Rightarrow> (case stringAt m key of Some v \<Rightarrow> v | None \<Rightarrow> []));
               email = field ''email'';
               projectID = field ''project_id'';
               accessToken = field ''access_token'';
               refreshTok = field ''refresh_token'';
               expiredStr = field ''expired'';
               isExpired =
                 (if expiredStr \<noteq> [] then
                    (case Parse_RFC3339 lib expiredStr of
                       None \<Rightarrow> False
                     | Some expiredTime \<Rightarrow> expiredTime < now)
                  else False)
           in if accessToken = [] then None
              else Some \<lparr>auth_email = email, auth_projectID = projectID,
                         auth_accessToken = accessToken, auth_refreshToken = refreshTok,
                         auth_authID = ID auth, auth_expired = isExpired\<rparr>)"

fun selectAuths :: "Library \<Rightarrow> time \<Rightarrow> Auth list \<Rightarrow> antigravityAuth list \<Rightarrow> antigravityAuth list" where
  "selectAuths lib now [] antigravityAuths = antigravityAuths"
| "selectAuths lib now (auth # rest) antigravityAuths =
     (case selectAuth lib now auth of
        None \<Rightarrow> selectAuths lib now rest antigravityAuths
      | Some a \<Rightarrow> selectAuths lib now rest (antigravityAuths @ [a]))"

text \<open>
  The goroutine of one account (lines 193-235): the one Account Quota it sends on the
  channel, and the calls it made.
\<close>

definition resolutionTask ::
  "Library \<Rightarrow> Network \<Rightarrow> time \<Rightarrow> antigravityAuth \<Rightarrow> AccountQuota \<times> call list" where
  "resolutionTask lib net now a =
     (if auth_expired a \<and> auth_refreshToken a \<noteq> [] then
        (case refreshAccessToken lib net (auth_refreshToken a) of
           (Inl err, calls) \<Rightarrow>
             (\<lparr>Email = auth_email a, ProjectID = auth_projectID a, Status = ''inactive'',
               ModelQuotas = [], Error = ''Token refresh failed: '' @ err,
               LastUpdated = now\<rparr>, calls)
         | (Inr (newToken, expiresIn), calls) \<Rightarrow>
             (case fetchQuotaForAccount lib net now (auth_email a) (auth_projectID a) newToken of
                (quota, calls') \<Rightarrow>
                  (quota, calls @ updateAuthToken (auth_authID a) newToken expiresIn @ calls')))
      else if auth_expired a then
        (\<lparr>Email = auth_email a, ProjectID = auth_projectID a, Status = ''inactive'',
          ModelQuotas = [], Error = ''Access token expired and no refresh token available'',
          LastUpdated = now\<rparr>, [])
      else
        fetchQuotaForAccount lib net now (auth_email a) (auth_projectID a) (auth_accessToken a))"

text \<open>
  The tally (lines 250-265): the three counters after the loop over \<open>accounts\<close>.
\<close>

fun tally :: "AccountQuota list \<Rightarrow> int \<times> int \<times> int \<Rightarrow> int \<times> int \<times> int" where
  "tally [] counts = counts"
| "tally (account # rest) (activeAccounts, inactiveAccounts, errorAccounts) =
     (if Status account = ''active''
        then tally rest (activeAccounts + 1, inactiveAccounts, errorAccounts)
      else if Status account = ''inactive''
        then tally rest (activeAccounts, inactiveAccounts + 1, errorAccounts)
      else if Status account = ''error''
        then tally rest (activeAccounts, inactiveAccounts, errorAccounts + 1)
      else tally rest (activeAccounts, inactiveAccounts, errorAccounts))"

text \<open>
  The goroutines send on the channel in the order in which they finish. \<open>rank i\<close> is the
  moment at which the task of the \<open>i\<close>-th selected account sends its result; the collector
  receives the results by increasing rank.
\<close>

definition arrival :: "(nat \<Rightarrow> nat) \<Rightarrow> nat \<Rightarrow> nat list" where
  "arrival rank n = sort_key rank [0..<n]"

datatype reply = JSON_error int string | JSON_report int AntigravityQuotaResponse

text \<open>
  \<open>GetAntigravityQuota\<close> (lines 89-278). \<open>authManager\<close> is \<open>None\<close> for a nil manager and
  the result of \<open>List()\<close> otherwise; \<open>nets i\<close> is the network as the \<open>i\<close>-th task meets
  it. The result is the reply and, for each task, the calls it made.
\<close>

definition GetAntigravityQuota ::
  "Library \<Rightarrow> (nat \<Rightarrow> Network) \<Rightarrow> (nat \<Rightarrow> nat) \<Rightarrow> time \<Rightarrow> Auth list option
    \<Rightarrow> reply \<times> call list list" where
  "GetAntigravityQuota lib nets rank now authManager =
     (case authManager of
        None \<Rightarrow> (JSON_error 503 ''auth manager unavailable'', [])
      | Some allAuths \<Rightarrow>
          let antigravityAuths = selectAuths lib now allAuths [];
              results =
                map (\<lambda>i. resolutionTask lib (nets i) now (antigravityAuths ! i))
                  [0..<length antigravityAuths];
              accounts = map (\<lambda>i. fst (results ! i)) (arrival rank (length antigravityAuths));
              totalAccounts = int (length accounts)
          in case tally accounts (0, 0, 0) of
               (activeAccounts, inactiveAccounts, errorAccounts) \<Rightarrow>
                 (JSON_report 200
                    \<lparr>TotalAccounts = totalAccounts, ActiveAccounts = activeAccounts,
                      InactiveAccounts = inactiveAccounts, ErrorAccounts = errorAccounts,
                      Accounts = accounts, ReportLastUpdated = now\<rparr>,
                  map snd results))"

section \<open>Notions used in the statements\<close>

text \<open>
  A response of the generation API carries usable rate-limit headers when both headers are
  there, the limit scans as an int other than zero and the remaining count scans as an int.
\<close>

definition usableHeaders :: "Library \<Rightarrow> Response \<Rightarrow> bool" where
  "usableHeaders lib resp =
     (Header_Get resp ''X-RateLimit-Limit'' \<noteq> [] \<and>
      Header_Get resp ''X-RateLimit-Remaining'' \<noteq> [] \<and>
      (case Sscanf_d lib (Header_Get resp ''X-RateLimit-Limit'') of
         None \<Rightarrow> False | Some limit \<Rightarrow> limit \<noteq> 0) \<and>
      Sscanf_d lib (Header_Get resp ''X-RateLimit-Remaining'') \<noteq> None)"

definition probeFinds :: "Library \<Rightarrow> Network \<Rightarrow> string \<Rightarrow> string \<Rightarrow> string \<Rightarrow> string \<Rightarrow> bool" where
  "probeFinds lib net email projectID accessToken modelName =
     (case post_generateContent net (generateEndpoint email projectID) accessToken projectID modelName of
        Inl err \<Rightarrow> False
      | Inr resp \<Rightarrow> usableHeaders lib resp)"

definition isGenerateCall :: "call \<Rightarrow> bool" where
  "isGenerateCall c = (case c of GenerateCall e t p m \<Rightarrow> True | _ \<Rightarrow> False)"

definition probed :: "Library \<Rightarrow> Network \<Rightarrow> string \<Rightarrow> string \<Rightarrow> string \<Rightarrow> string \<Rightarrow> ModelQuota option" where
  "probed lib net email projectID accessToken modelName =
     (case fst (extractQuotaForModel lib net email projectID accessToken modelName) of
        Inr (Some quota) \<Rightarrow> Some quota
      | _ \<Rightarrow> None)"

text \<open>
  The models of a Format B response that carry a quota-info block with a remaining
  fraction, each with its fraction.
\<close>

definition fractionsOf :: "(string \<times> ModelInfo) list \<Rightarrow> (string \<times> float64) list" where
  "fractionsOf models =
     List.map_filter
       (\<lambda>(name, info).
          case quotaInfo info of
            None \<Rightarrow> None
          | Some qi \<Rightarrow> (case remainingFraction qi of None \<Rightarrow> None | Some fraction \<Rightarrow> Some (name, fraction)))
       models"

text \<open>The access token of a credential record, as the selection loop reads it.\<close>

definition accessTokenOf :: "Auth \<Rightarrow> string" where
  "accessTokenOf auth =
     (case Metadata auth of
        None \<Rightarrow> []
      | Some m \<Rightarrow> (case stringAt m ''access_token'' of Some v \<Rightarrow> v | None \<Rightarrow> []))"

section \<open>Concrete inputs\<close>

text \<open>
  An instance of the library and some networks, on which the theorems below are run. The
  scanner reads a non-empty string of decimal digits, as \<open>fmt.Sscanf\<close> does.
\<close>

definition digitValue :: "char \<Rightarrow> int option" where
  "digitValue c =
     map_of [(CHR ''0'', 0), (CHR ''1'', 1), (CHR ''2'', 2), (CHR ''3'', 3), (CHR ''4'', 4),
             (CHR ''5'', 5), (CHR ''6'', 6), (CHR ''7'', 7), (CHR ''8'', 8), (CHR ''9'', 9)] c"

fun scanDigits :: "string \<Rightarrow> int \<Rightarrow> int option" where
  "scanDigits [] n = Some n"
| "scanDigits (c # cs) n =
     (case digitValue c of None \<Rightarrow> None | Some d \<Rightarrow> scanDigits cs (10 * n + d))"

definition exampleModels :: "(string \<times> ModelInfo) list" where
  "exampleModels =
     [(''gemini-2.5-pro'',
       \<lparr>quotaInfo = Some \<lparr>remainingFraction = Some (float64_of_decimal 2 5),
                          resetTime = Some ''2025-01-01T00:00:00Z''\<rparr>\<rparr>),
      (''gemini-2.5-flash'', \<lparr>quotaInfo = None\<rparr>)]"

definition exampleLibrary :: Library where
  "exampleLibrary =
     \<lparr>Unmarshal_Array = (\<lambda>body. None),
      Unmarshal_Map = (\<lambda>body. if body = ''B'' then Some exampleModels else None),
      Decode_Token = (\<lambda>resp. Inl ''unexpected EOF''),
      Sscanf_d = (\<lambda>s. if s = [] then None else scanDigits s 0),
      Parse_RFC3339 = (\<lambda>s. if s = ''2020-01-01T00:00:00Z'' then Some 1577836800 else None)\<rparr>"

definition plainResponse :: "int \<Rightarrow> string \<Rightarrow> Response" where
  "plainResponse code body =
     \<lparr>StatusCode = code, Header_Get = (\<lambda>key. []), Body = body, ReadErr = None\<rparr>"

definition rateLimitResponse :: "int \<Rightarrow> string \<Rightarrow> string \<Rightarrow> Response" where
  "rateLimitResponse code limit remaining =
     \<lparr>StatusCode = code,
      Header_Get = (\<lambda>key. if key = ''X-RateLimit-Limit'' then limit
                          else if key = ''X-RateLimit-Remaining'' then remaining else []),
      Body = [], ReadErr = None\<rparr>"

definition networkOf ::
  "(string \<Rightarrow> string + Response) \<Rightarrow> (string \<Rightarrow> string + Response) \<Rightarrow> Network" where
  "networkOf quota generate =
     \<lparr>post_fetchAvailableModels = (\<lambda>endpoint accessToken. quota endpoint),
      post_generateContent = (\<lambda>endpoint accessToken project modelName. generate modelName),
      post_token = (\<lambda>refreshTok. Inl ''connection refused'')\<rparr>"

text \<open>
  Networks: the first candidate endpoint answers 404 and the others 401; every endpoint
  answers 403 with a body that mentions "unauthorized"; every endpoint answers 403 and the
  generation API gives rate-limit headers for two models of the probe list; every endpoint
  answers 403 and the generation API gives no rate-limit header; the first endpoint
  answers 500 with a body that mentions 404 and the others answer 200 in Format B; every
  endpoint answers 401 and the reading of the body fails.
\<close>

definition notFoundThenUnauthorized :: Network where
  "notFoundThenUnauthorized =
     networkOf
       (\<lambda>endpoint. if endpoint = endpoints ! 0 then Inr (plainResponse 404 [])
                   else Inr (plainResponse 401 ''token expired''))
       (\<lambda>modelName. Inl ''connection refused'')"

definition forbiddenUnauthorizedBody :: Network where
  "forbiddenUnauthorizedBody =
     networkOf (\<lambda>endpoint. Inr (plainResponse 403 ''unauthorized client''))
       (\<lambda>modelName. Inr (rateLimitResponse 200 ''100'' ''25''))"

definition forbiddenTwoModels :: Network where
  "forbiddenTwoModels =
     networkOf (\<lambda>endpoint. Inr (plainResponse 403 ''permission denied''))
       (\<lambda>modelName. if modelName = ''gemini-2.5-pro'' \<or> modelName = ''gemini-2.0-flash''
                    then Inr (rateLimitResponse 200 ''100'' ''25'')
                    else Inr (plainResponse 200 []))"

definition forbiddenNoHeaders :: Network where
  "forbiddenNoHeaders =
     networkOf (\<lambda>endpoint. Inr (plainResponse 403 ''permission denied''))
       (\<lambda>modelName. Inr (plainResponse 200 []))"

definition serverErrorMentions404 :: Network where
  "serverErrorMentions404 =
     networkOf
       (\<lambda>endpoint. if endpoint = endpoints ! 0
                   then Inr (plainResponse 500 ''upstream returned 404'')
                   else Inr (plainResponse 200 ''B''))
       (\<lambda>modelName. Inl ''connection refused'')"

definition unauthorizedUnreadable :: Network where
  "unauthorizedUnreadable =
     networkOf
       (\<lambda>endpoint. Inr \<lparr>StatusCode = 401, Header_Get = (\<lambda>key. []), Body = [],
                          ReadErr = Some ''unexpected EOF''\<rparr>)
       (\<lambda>modelName. Inl ''connection refused'')"

text \<open>
  Credential records: one whose expiry marker is in the past and that has no refresh token,
  one without an access token, and one with a valid token that is tagged in its attribute
  map only.
\<close>

definition expiredNoRefresh :: Auth where
  "expiredNoRefresh =
     \<lparr>ID = ''auth-1'', Provider = ''antigravity'',
      Metadata = Some (map_of
        [(''email'', StringValue ''old@example.com''),
         (''access_token'', StringValue ''stale''),
         (''expired'', StringValue ''2020-01-01T00:00:00Z'')])\<rparr>"

definition noAccessToken :: Auth where
  "noAccessToken =
     \<lparr>ID = ''auth-2'', Provider = ''antigravity'',
      Metadata = Some (map_of
        [(''email'', StringValue ''empty@example.com''),
         (''refresh_token'', StringValue ''refresh'')])\<rparr>"

definition validAuth :: Auth where
  "validAuth =
     \<lparr>ID = ''auth-3'', Provider = ''gemini'',
      Metadata = Some (map_of
        [(''type'', StringValue ''antigravity''),
         (''email'', StringValue ''user@example.com''),
         (''project_id'', StringValue ''project-1''),
         (''access_token'', StringValue ''token'')])\<rparr>"

section \<open>Lemmas on the functions\<close>

subsection \<open>The header probe\<close>


lemma extract_calls:
  "snd (extractQuotaForModel lib net email projectID accessToken modelName) =
     [GenerateCall (generateEndpoint email projectID) accessToken projectID modelName]"
  by (simp add: extractQuotaForModel_def Let_def split: sum.splits option.splits)

lemma extract_usable:
  assumes "post_generateContent net (generateEndpoint email projectID) accessToken projectID modelName = Inr resp"
    and "usableHeaders lib resp"
  shows "\<exists>q. fst (extractQuotaForModel lib net email projectID accessToken modelName) = Inr (Some q)
           \<and> Model q = modelName \<and> ResetTime q = Header_Get resp ''X-RateLimit-Reset''"
  using assms
  by (auto simp add: extractQuotaForModel_def usableHeaders_def Let_def split: option.splits)

lemma extract_unusable:
  assumes "post_generateContent net (generateEndpoint email projectID) accessToken projectID modelName = Inr resp"
    and "\<not> usableHeaders lib resp"
  shows "fst (extractQuotaForModel lib net email projectID accessToken modelName) = Inr None"
  using assms
  by (auto simp add: extractQuotaForModel_def usableHeaders_def Let_def split: option.splits)

lemma extract_error:
  assumes "post_generateContent net (generateEndpoint email projectID) accessToken projectID modelName = Inl err"
  shows "fst (extractQuotaForModel lib net email projectID accessToken modelName) = Inl (''execute request: '' @ err)"
  using assms by (simp add: extractQuotaForModel_def Let_def)

lemma probed_iff_probeFinds:
  "probed lib net email projectID accessToken modelName \<noteq> None
     \<longleftrightarrow> probeFinds lib net email projectID accessToken modelName"
proof (cases "post_generateContent net (generateEndpoint email projectID) accessToken projectID modelName")
  case (Inl err)
  then show ?thesis
    by (simp add: probed_def probeFinds_def extract_error)
next
  case (Inr resp)
  show ?thesis
  proof (cases "usableHeaders lib resp")
    case True
    from extract_usable [OF Inr True] show ?thesis
      using Inr True by (auto simp add: probed_def probeFinds_def)
  next
    case False
    from extract_unusable [OF Inr False] show ?thesis
      using Inr False by (simp add: probed_def probeFinds_def)
  qed
qed

lemma probed_Model:
  "probed lib net email projectID accessToken modelName = Some q \<Longrightarrow> Model q = modelName"
  by (auto simp add: probed_def extractQuotaForModel_def Let_def split: sum.splits option.splits if_splits)

lemma headers_loop:
  "fetchQuotaFromHeaders_loop lib net email projectID accessToken ms acc =
     (acc @ List.map_filter (probed lib net email projectID accessToken) ms,
      map (GenerateCall (generateEndpoint email projectID) accessToken projectID) ms)"
proof (induction ms arbitrary: acc)
  case Nil
  show ?case by (simp add: List.map_filter_simps)
next
  case (Cons m ms)
  obtain r calls where r: "extractQuotaForModel lib net email projectID accessToken m = (r, calls)"
    by (cases "extractQuotaForModel lib net email projectID accessToken m") auto
  have c: "calls = [GenerateCall (generateEndpoint email projectID) accessToken projectID m]"
    using extract_calls [of lib net email projectID accessToken m] r by simp
  have p: "probed lib net email projectID accessToken m =
             (case r of Inr (Some quota) \<Rightarrow> Some quota | _ \<Rightarrow> None)"
    using r by (simp add: probed_def)
  show ?case
    by (simp add: r c p Cons.IH List.map_filter_simps split: sum.splits option.splits)
qed

lemma length_map_filter_probed:
  "length (List.map_filter (probed lib net email projectID accessToken) ms) =
     length (filter (probeFinds lib net email projectID accessToken) ms)"
proof (induction ms)
  case Nil
  show ?case by (simp add: List.map_filter_simps)
next
  case (Cons m ms)
  show ?case
    using Cons.IH probed_iff_probeFinds [of lib net email projectID accessToken m]
    by (cases "probed lib net email projectID accessToken m") (auto simp add: List.map_filter_simps)
qed

lemma map_Model_map_filter_probed:
  "map Model (List.map_filter (probed lib net email projectID accessToken) ms) =
     filter (probeFinds lib net email projectID accessToken) ms"
proof (induction ms)
  case Nil
  show ?case by (simp add: List.map_filter_simps)
next
  case (Cons m ms)
  show ?case
    using Cons.IH probed_iff_probeFinds [of lib net email projectID accessToken m]
      probed_Model [of lib net email projectID accessToken m]
    by (cases "probed lib net email projectID accessToken m") (auto simp add: List.map_filter_simps)
qed

lemma fetchQuotaFromHeaders_snd:
  "snd (fetchQuotaFromHeaders lib net email projectID accessToken) =
     map (GenerateCall (generateEndpoint email projectID) accessToken projectID) modelsToCheck"
  by (simp add: fetchQuotaFromHeaders_def headers_loop)

lemma fetchQuotaFromHeaders_fst:
  "fst (fetchQuotaFromHeaders lib net email projectID accessToken) =
     (let qs = List.map_filter (probed lib net email projectID accessToken) modelsToCheck
      in if qs = [] then Inl ''no quota information extracted from headers'' else Inr qs)"
  by (simp add: fetchQuotaFromHeaders_def headers_loop Let_def)

subsection \<open>callQuotaEndpoint\<close>

lemma callQuotaEndpoint_snd:
  "snd (callQuotaEndpoint lib net now endpoint email projectID accessToken) =
     [QuotaCall endpoint accessToken]"
  by (simp add: callQuotaEndpoint_def Let_def split: sum.splits option.splits)

lemma callQuotaEndpoint_active:
  "fst (callQuotaEndpoint lib net now endpoint email projectID accessToken) = Inr quota
     \<Longrightarrow> Status quota = ''active''"
  by (auto simp add: callQuotaEndpoint_def buildQuotasFromArray_def buildQuotasFromMap_def Let_def
      split: sum.splits option.splits if_splits)

lemma callQuotaEndpoint_401:
  assumes "post_fetchAvailableModels net endpoint accessToken = Inr resp"
    and "ReadErr resp = None" and "StatusCode resp = 401"
  shows "fst (callQuotaEndpoint lib net now endpoint email projectID accessToken) =
           Inl ''unauthorized: access token expired''"
  using assms by (simp add: callQuotaEndpoint_def)

lemma callQuotaEndpoint_403:
  assumes "post_fetchAvailableModels net endpoint accessToken = Inr resp"
    and "ReadErr resp = None" and "StatusCode resp = 403"
  shows "fst (callQuotaEndpoint lib net now endpoint email projectID accessToken) =
           Inl (''forbidden: '' @ Body resp)"
  using assms by (simp add: callQuotaEndpoint_def)

lemma callQuotaEndpoint_404:
  assumes "post_fetchAvailableModels net endpoint accessToken = Inr resp"
    and "ReadErr resp = None" and "StatusCode resp = 404"
  shows "fst (callQuotaEndpoint lib net now endpoint email projectID accessToken) =
           Inl ''404: endpoint not found''"
  using assms by (simp add: callQuotaEndpoint_def)

lemma Contains_append_right: "Contains t substr \<Longrightarrow> Contains (s @ t) substr"
proof (induction s)
  case Nil
  then show ?case by simp
next
  case (Cons c s)
  then show ?case by simp
qed

lemma Contains_unauthorized: "Contains ''unauthorized: access token expired'' ''unauthorized''"
  by simp

lemma notFound_text:
  "\<not> Contains ''404: endpoint not found'' ''unauthorized''"
  "\<not> Contains ''404: endpoint not found'' ''access token expired''"
  "\<not> Contains ''404: endpoint not found'' ''forbidden''"
  "\<not> Contains ''404: endpoint not found'' ''banned''"
  "Contains ''404: endpoint not found'' ''404''"
  by simp_all

subsection \<open>One iteration of the endpoint loop\<close>

lemma loop_step_ok:
  assumes "fst (callQuotaEndpoint lib net now e email projectID accessToken) = Inr quota"
  shows "fetchQuotaForAccount_loop lib net now email projectID accessToken (e # rest) lastError =
           (quota, [QuotaCall e accessToken])"
  using assms callQuotaEndpoint_snd [of lib net now e email projectID accessToken]
  by (cases "callQuotaEndpoint lib net now e email projectID accessToken") simp

lemma loop_step_unauthorized:
  assumes "fst (callQuotaEndpoint lib net now e email projectID accessToken) = Inl err"
    and "Contains err ''unauthorized'' \<or> Contains err ''access token expired''"
  shows "fetchQuotaForAccount_loop lib net now email projectID accessToken (e # rest) lastError =
           (\<lparr>Email = email, ProjectID = projectID, Status = ''inactive'', ModelQuotas = [],
             Error = ''Access token expired. Please re-login: CLIProxyAPI -antigravity-login'',
             LastUpdated = now\<rparr>, [QuotaCall e accessToken])"
  using assms callQuotaEndpoint_snd [of lib net now e email projectID accessToken]
  by (cases "callQuotaEndpoint lib net now e email projectID accessToken") auto

lemma loop_step_forbidden:
  assumes "fst (callQuotaEndpoint lib net now e email projectID accessToken) = Inl err"
    and "\<not> Contains err ''unauthorized''" and "\<not> Contains err ''access token expired''"
    and "Contains err ''forbidden'' \<or> Contains err ''banned''"
  shows "fetchQuotaForAccount_loop lib net now email projectID accessToken (e # rest) lastError =
           ((case fst (fetchQuotaFromHeaders lib net email projectID accessToken) of
               Inr quotas \<Rightarrow>
                 \<lparr>Email = email, ProjectID = projectID, Status = ''active'',
                  ModelQuotas = quotas, Error = [], LastUpdated = now\<rparr>
             | Inl fallbackErr \<Rightarrow>
                 \<lparr>Email = email, ProjectID = projectID, Status = ''inactive'', ModelQuotas = [],
                  Error = ''Access forbidden and fallback failed: '' @ fallbackErr,
                  LastUpdated = now\<rparr>),
            QuotaCall e accessToken #
            map (GenerateCall (generateEndpoint email projectID) accessToken projectID) modelsToCheck)"
proof -
  obtain r calls where c: "callQuotaEndpoint lib net now e email projectID accessToken = (r, calls)"
    by (cases "callQuotaEndpoint lib net now e email projectID accessToken") auto
  obtain r' calls' where f: "fetchQuotaFromHeaders lib net email projectID accessToken = (r', calls')"
    by (cases "fetchQuotaFromHeaders lib net email projectID accessToken") auto
  have "calls = [QuotaCall e accessToken]"
    using callQuotaEndpoint_snd [of lib net now e email projectID accessToken] c by simp
  moreover have "calls' = map (GenerateCall (generateEndpoint email projectID) accessToken projectID) modelsToCheck"
    using fetchQuotaFromHeaders_snd [of lib net email projectID accessToken] f by simp
  moreover have "r = Inl err" using assms(1) c by simp
  ultimately show ?thesis
    using assms(2-4) c f by (cases r') auto
qed

lemma loop_step_break:
  assumes "fst (callQuotaEndpoint lib net now e email projectID accessToken) = Inl err"
    and "\<not> Contains err ''unauthorized''" and "\<not> Contains err ''access token expired''"
    and "\<not> Contains err ''forbidden''" and "\<not> Contains err ''banned''"
    and "\<not> Contains err ''404''"
  shows "fetchQuotaForAccount_loop lib net now email projectID accessToken (e # rest) lastError =
           (allEndpointsFailed now email projectID (Some err), [QuotaCall e accessToken])"
  using assms callQuotaEndpoint_snd [of lib net now e email projectID accessToken]
  by (cases "callQuotaEndpoint lib net now e email projectID accessToken") auto

lemma loop_step_advance:
  assumes "fst (callQuotaEndpoint lib net now e email projectID accessToken) = Inl err"
    and "\<not> Contains err ''unauthorized''" and "\<not> Contains err ''access token expired''"
    and "\<not> Contains err ''forbidden''" and "\<not> Contains err ''banned''"
    and "Contains err ''404''"
  shows "fetchQuotaForAccount_loop lib net now email projectID accessToken (e # rest) lastError =
           (fst (fetchQuotaForAccount_loop lib net now email projectID accessToken rest (Some err)),
            QuotaCall e accessToken #
            snd (fetchQuotaForAccount_loop lib net now email projectID accessToken rest (Some err)))"
  using assms callQuotaEndpoint_snd [of lib net now e email projectID accessToken]
  by (cases "callQuotaEndpoint lib net now e email projectID accessToken")
     (auto split: prod.splits)

text \<open>The five cases are exhaustive.\<close>

lemma loop_step_cases:
  obtains
    (ok) quota where "fst (callQuotaEndpoint lib net now e email projectID accessToken) = Inr quota"
  | (unauthorized) err where
      "fst (callQuotaEndpoint lib net now e email projectID accessToken) = Inl err"
      "Contains err ''unauthorized'' \<or> Contains err ''access token expired''"
  | (forbidden) err where
      "fst (callQuotaEndpoint lib net now e email projectID accessToken) = Inl err"
      "\<not> Contains err ''unauthorized''" "\<not> Contains err ''access token expired''"
      "Contains err ''forbidden'' \<or> Contains err ''banned''"
  | (break) err where
      "fst (callQuotaEndpoint lib net now e email projectID accessToken) = Inl err"
      "\<not> Contains err ''unauthorized''" "\<not> Contains err ''access token expired''"
      "\<not> Contains err ''forbidden''" "\<not> Contains err ''banned''"
      "\<not> Contains err ''404''"
  | (advance) err where
      "fst (callQuotaEndpoint lib net now e email projectID accessToken) = Inl err"
      "\<not> Contains err ''unauthorized''" "\<not> Contains err ''access token expired''"
      "\<not> Contains err ''forbidden''" "\<not> Contains err ''banned''"
      "Contains err ''404''"
  by (cases "fst (callQuotaEndpoint lib net now e email projectID accessToken)") blast+

subsection \<open>The endpoint loop\<close>

lemma loop_status:
  "Status (fst (fetchQuotaForAccount_loop lib net now email projectID accessToken es lastError))
     \<in> {''active'', ''inactive'', ''error''}"
proof (induction es arbitrary: lastError)
  case Nil
  show ?case by (simp add: allEndpointsFailed_def)
next
  case (Cons e es)
  show ?case
  proof (cases rule: loop_step_cases [of lib net now e email projectID accessToken])
    case (ok quota)
    from loop_step_ok [OF ok] callQuotaEndpoint_active [OF ok] show ?thesis by simp
  next
    case (unauthorized err)
    from loop_step_unauthorized [OF unauthorized] show ?thesis by simp
  next
    case (forbidden err)
    from loop_step_forbidden [OF forbidden] show ?thesis
      by (simp split: sum.splits)
  next
    case (break err)
    from loop_step_break [OF break] show ?thesis by (simp add: allEndpointsFailed_def)
  next
    case (advance err)
    from loop_step_advance [OF advance] Cons.IH show ?thesis by simp
  qed
qed

lemma loop_unauthorized_reached:
  assumes "QuotaCall e accessToken
             \<in> set (snd (fetchQuotaForAccount_loop lib net now email projectID accessToken es lastError))"
    and "fst (callQuotaEndpoint lib net now e email projectID accessToken) = Inl err"
    and "Contains err ''unauthorized'' \<or> Contains err ''access token expired''"
  shows "fetchQuotaForAccount_loop lib net now email projectID accessToken es lastError =
           (\<lparr>Email = email, ProjectID = projectID, Status = ''inactive'', ModelQuotas = [],
             Error = ''Access token expired. Please re-login: CLIProxyAPI -antigravity-login'',
             LastUpdated = now\<rparr>,
            map (\<lambda>x. QuotaCall x accessToken) (takeWhile (\<lambda>x. x \<noteq> e) es @ [e]))"
  using assms(1)
proof (induction es arbitrary: lastError)
  case Nil
  then show ?case by simp
next
  case (Cons x es)
  show ?case
  proof (cases "x = e")
    case True
    from loop_step_unauthorized [OF assms(2,3)] show ?thesis
      using True by simp
  next
    case False
    show ?thesis
    proof (cases rule: loop_step_cases [of lib net now x email projectID accessToken])
      case (ok quota)
      from loop_step_ok [OF ok] Cons.prems False show ?thesis by simp
    next
      case (unauthorized err')
      from loop_step_unauthorized [OF unauthorized] Cons.prems False show ?thesis by simp
    next
      case (forbidden err')
      from loop_step_forbidden [OF forbidden] Cons.prems False show ?thesis by auto
    next
      case (break err')
      from loop_step_break [OF break] Cons.prems False show ?thesis by simp
    next
      case (advance err')
      note step = loop_step_advance [OF advance, of es lastError]
      from step Cons.prems False
      have "QuotaCall e accessToken
              \<in> set (snd (fetchQuotaForAccount_loop lib net now email projectID accessToken es (Some err')))"
        by simp
      from Cons.IH [OF this] step False show ?thesis by simp
    qed
  qed
qed

lemma loop_probe_ran:
  assumes "GenerateCall ep t p m
             \<in> set (snd (fetchQuotaForAccount_loop lib net now email projectID accessToken es lastError))"
  shows "fst (fetchQuotaForAccount_loop lib net now email projectID accessToken es lastError) =
           (case fst (fetchQuotaFromHeaders lib net email projectID accessToken) of
              Inr quotas \<Rightarrow>
                \<lparr>Email = email, ProjectID = projectID, Status = ''active'',
                 ModelQuotas = quotas, Error = [], LastUpdated = now\<rparr>
            | Inl fallbackErr \<Rightarrow>
                \<lparr>Email = email, ProjectID = projectID, Status = ''inactive'', ModelQuotas = [],
                 Error = ''Access forbidden and fallback failed: '' @ fallbackErr,
                 LastUpdated = now\<rparr>)"
  using assms
proof (induction es arbitrary: lastError)
  case Nil
  then show ?case by simp
next
  case (Cons x es)
  show ?case
  proof (cases rule: loop_step_cases [of lib net now x email projectID accessToken])
    case (ok quota)
    from loop_step_ok [OF ok] Cons.prems show ?thesis by simp
  next
    case (unauthorized err')
    from loop_step_unauthorized [OF unauthorized] Cons.prems show ?thesis by simp
  next
    case (forbidden err')
    from loop_step_forbidden [OF forbidden] show ?thesis by simp
  next
    case (break err')
    from loop_step_break [OF break] Cons.prems show ?thesis by simp
  next
    case (advance err')
    note step = loop_step_advance [OF advance, of es lastError]
    from step Cons.prems
    have "GenerateCall ep t p m
            \<in> set (snd (fetchQuotaForAccount_loop lib net now email projectID accessToken es (Some err')))"
      by simp
    from Cons.IH [OF this] step show ?thesis by simp
  qed
qed

lemma loop_all_not_found:
  assumes "\<forall>e \<in> set es. \<exists>resp. post_fetchAvailableModels net e accessToken = Inr resp
             \<and> ReadErr resp = None \<and> StatusCode resp = 404"
  shows "fetchQuotaForAccount_loop lib net now email projectID accessToken es lastError =
           (allEndpointsFailed now email projectID
              (if es = [] then lastError else Some ''404: endpoint not found''),
            map (\<lambda>e. QuotaCall e accessToken) es)"
  using assms
proof (induction es arbitrary: lastError)
  case Nil
  show ?case by simp
next
  case (Cons x es)
  from Cons.prems obtain resp where r:
    "post_fetchAvailableModels net x accessToken = Inr resp" "ReadErr resp = None"
    "StatusCode resp = 404"
    by auto
  have c: "fst (callQuotaEndpoint lib net now x email projectID accessToken) =
             Inl ''404: endpoint not found''"
    by (rule callQuotaEndpoint_404 [OF r])
  note step = loop_step_advance [OF c notFound_text, of es lastError]
  have ih: "fetchQuotaForAccount_loop lib net now email projectID accessToken es
              (Some ''404: endpoint not found'') =
            (allEndpointsFailed now email projectID
               (if es = [] then Some ''404: endpoint not found'' else Some ''404: endpoint not found''),
             map (\<lambda>e. QuotaCall e accessToken) es)"
    using Cons.IH [of "Some ''404: endpoint not found''"] Cons.prems by simp
  show ?case using step ih by simp
qed

subsection \<open>float64\<close>

lemma float64_numerals [simp]:
  "bit_length 0 = 0"
  "bit_length 1 = 1"
  "bit_length (numeral Num.One) = 1"
  "bit_length (numeral (Num.Bit0 k)) = Suc (bit_length (numeral k))"
  "bit_length (numeral (Num.Bit1 k)) = Suc (bit_length (numeral k))"
proof -
  show "bit_length 0 = 0" by (simp add: bit_length.simps)
  show b1: "bit_length 1 = 1" by (simp add: bit_length.simps)
  show "bit_length (numeral Num.One) = 1" using b1 by simp
  have "numeral (Num.Bit0 k) div 2 = (numeral k :: nat)" by simp
  then show "bit_length (numeral (Num.Bit0 k)) = Suc (bit_length (numeral k))"
    by (subst bit_length.simps) simp
  have "numeral (Num.Bit1 k) div 2 = (numeral k :: nat)" by simp
  then show "bit_length (numeral (Num.Bit1 k)) = Suc (bit_length (numeral k))"
    by (subst bit_length.simps) simp
qed

lemmas float64_eval = scale_fraction_def floor_log2_def round_half_even_def round_float64_def
  float64_of_int_def float64_of_decimal_def float64_mul_def float64_div_def Let_def

lemma float64_two_fifths_percent:
  "float64_mul (float64_of_decimal 2 5) (float64_of_int 100) = float64_of_int 40"
  by (simp add: float64_eval)

lemma float64_quarter_percent:
  "float64_mul (float64_div (float64_of_int 25) (float64_of_int 100)) (float64_of_int 100) = float64_of_int 25"
  by (simp add: float64_eval)

lemma float64_forty: "float64_of_int 40 = Finite False (40 * 2 ^ 47) (- 47)"
  by (simp add: float64_eval)

text \<open>The same product on the bit patterns: the float64 nearest to 0.4, and 40.0.\<close>

lemma float64_two_fifths_percent_bits:
  "float64_of_decimal 2 5 = Finite False 7205759403792794 (- 54)"
  "float64_mul (Finite False 7205759403792794 (- 54)) (float64_of_int 100) =
     Finite False 5629499534213120 (- 47)"
  by (simp_all add: float64_eval)

text \<open>
  The rounding is visible: 0.07 \<times> 100 is not 7 but the next float64 above it, as in Go;
  \<open>2\<^sup>5\<^sup>3 + 1\<close> is not a float64 and converts to \<open>2\<^sup>5\<^sup>3\<close> (the tie goes to the even
  mantissa); zero divided by a negative number is the negative zero.
\<close>

lemma float64_seven_hundredths_percent:
  "float64_mul (float64_of_decimal 7 100) (float64_of_int 100) = Finite False (7 * 2 ^ 50 + 1) (- 50)"
  by (simp add: float64_eval)

lemma float64_of_int_tie:
  "float64_of_int 9007199254740993 = float64_of_int 9007199254740992"
  by (simp add: float64_eval)

lemma float64_negative_zero:
  "float64_div (float64_of_int 0) (float64_of_int (- 5)) = Finite True 0 (- 1074)"
  by (simp add: float64_eval)

subsection \<open>buildQuotasFromMap\<close>

lemma buildQuotasFromMap_loop_eq:
  "buildQuotasFromMap_loop models acc =
     acc @ map (\<lambda>(name, info).
                  \<lparr>Model = name, DisplayName = getDisplayName name,
                   RemainingPercent =
                     float64_mul (the (remainingFraction (the (quotaInfo info)))) (float64_of_int 100),
                   ResetTime = (case resetTime (the (quotaInfo info)) of None \<Rightarrow> [] | Some t \<Rightarrow> t)\<rparr>)
             (filter (\<lambda>(name, info).
                        case quotaInfo info of None \<Rightarrow> False
                        | Some qi \<Rightarrow> remainingFraction qi \<noteq> None) models)"
proof (induction models arbitrary: acc)
  case Nil
  show ?case by simp
next
  case (Cons x models)
  obtain name info where x: "x = (name, info)" by (cases x)
  show ?case
    by (simp add: x Cons.IH Let_def split: option.splits)
qed

lemma buildQuotasFromMap_loop_fractions:
  "map (\<lambda>q. (Model q, RemainingPercent q)) (buildQuotasFromMap_loop models []) =
     map (\<lambda>(name, fraction). (name, float64_mul fraction (float64_of_int 100))) (fractionsOf models)"
proof -
  have "map (\<lambda>q. (Model q, RemainingPercent q))
          (map (\<lambda>(name, info).
                  \<lparr>Model = name, DisplayName = getDisplayName name,
                   RemainingPercent =
                     float64_mul (the (remainingFraction (the (quotaInfo info)))) (float64_of_int 100),
                   ResetTime = (case resetTime (the (quotaInfo info)) of None \<Rightarrow> [] | Some t \<Rightarrow> t)\<rparr>)
             (filter (\<lambda>(name, info).
                        case quotaInfo info of None \<Rightarrow> False
                        | Some qi \<Rightarrow> remainingFraction qi \<noteq> None) models)) =
        map (\<lambda>(name, fraction). (name, float64_mul fraction (float64_of_int 100))) (fractionsOf models)"
  proof (induction models)
    case Nil
    show ?case by (simp add: fractionsOf_def List.map_filter_simps)
  next
    case (Cons x models)
    obtain name info where x: "x = (name, info)" by (cases x)
    show ?case
      using Cons.IH
      by (auto simp add: x fractionsOf_def List.map_filter_simps split: option.splits)
  qed
  then show ?thesis by (simp add: buildQuotasFromMap_loop_eq)
qed

lemma loop_probe_ran_calls:
  assumes "GenerateCall ep t p m
             \<in> set (snd (fetchQuotaForAccount_loop lib net now email projectID accessToken es lastError))"
  shows "set (map (GenerateCall (generateEndpoint email projectID) accessToken projectID) modelsToCheck)
           \<subseteq> set (snd (fetchQuotaForAccount_loop lib net now email projectID accessToken es lastError))"
  using assms
proof (induction es arbitrary: lastError)
  case Nil
  then show ?case by simp
next
  case (Cons x es)
  show ?case
  proof (cases rule: loop_step_cases [of lib net now x email projectID accessToken])
    case (ok quota)
    from loop_step_ok [OF ok] Cons.prems show ?thesis by simp
  next
    case (unauthorized err')
    from loop_step_unauthorized [OF unauthorized] Cons.prems show ?thesis by simp
  next
    case (forbidden err')
    from loop_step_forbidden [OF forbidden, of es lastError] show ?thesis by auto
  next
    case (break err')
    from loop_step_break [OF break] Cons.prems show ?thesis by simp
  next
    case (advance err')
    note step = loop_step_advance [OF advance, of es lastError]
    from step Cons.prems
    have "GenerateCall ep t p m
            \<in> set (snd (fetchQuotaForAccount_loop lib net now email projectID accessToken es (Some err')))"
      by simp
    from Cons.IH [OF this] step show ?thesis by auto
  qed
qed

subsection \<open>The handler\<close>

lemma selectAuths_eq:
  "selectAuths lib now auths acc = acc @ List.map_filter (selectAuth lib now) auths"
  by (induction auths arbitrary: acc) (simp_all split: option.splits)

lemma selectAuth_no_token:
  "accessTokenOf auth = [] \<Longrightarrow> selectAuth lib now auth = None"
  by (simp add: selectAuth_def accessTokenOf_def Let_def)

lemma map_filter_filter:
  "(\<And>x. x \<in> set xs \<Longrightarrow> \<not> P x \<Longrightarrow> f x = None)
     \<Longrightarrow> List.map_filter f (filter P xs) = List.map_filter f xs"
  by (induction xs) (auto split: option.splits)

lemma selectAuths_filter:
  "selectAuths lib now (filter (\<lambda>auth. accessTokenOf auth \<noteq> []) allAuths) [] =
     selectAuths lib now allAuths []"
proof -
  have "List.map_filter (selectAuth lib now) (filter (\<lambda>auth. accessTokenOf auth \<noteq> []) allAuths) =
        List.map_filter (selectAuth lib now) allAuths"
    by (rule map_filter_filter) (simp add: selectAuth_no_token)
  then show ?thesis by (simp add: selectAuths_eq)
qed

lemma length_map_filter:
  "length (List.map_filter f xs) = length (filter (\<lambda>x. f x \<noteq> None) xs)"
  by (induction xs) (auto split: option.splits)

lemma tally_sum:
  assumes "\<forall>account \<in> set accounts.
             Status account = ''active'' \<or> Status account = ''inactive''
             \<or> Status account = ''error''"
    and "tally accounts (x, y, z) = (x', y', z')"
  shows "x' + y' + z' = x + y + z + int (length accounts)"
  using assms
proof (induction accounts arbitrary: x y z)
  case Nil
  then show ?case by simp
next
  case (Cons account accounts)
  from Cons.prems(1) have rest: "\<forall>account \<in> set accounts.
      Status account = ''active'' \<or> Status account = ''inactive'' \<or> Status account = ''error''"
    by simp
  from Cons.prems(1) consider
      (active) "Status account = ''active''"
    | (inactive) "Status account \<noteq> ''active''" "Status account = ''inactive''"
    | (error) "Status account \<noteq> ''active''" "Status account \<noteq> ''inactive''"
        "Status account = ''error''"
    by auto
  then show ?case
  proof cases
    case active
    with Cons.prems(2) have "tally accounts (x + 1, y, z) = (x', y', z')" by simp
    from Cons.IH [OF rest this] show ?thesis by simp
  next
    case inactive
    with Cons.prems(2) have "tally accounts (x, y + 1, z) = (x', y', z')" by simp
    from Cons.IH [OF rest this] show ?thesis by simp
  next
    case error
    with Cons.prems(2) have "tally accounts (x, y, z + 1) = (x', y', z')" by simp
    from Cons.IH [OF rest this] show ?thesis by simp
  qed
qed

lemma fetchQuotaForAccount_status:
  "Status (fst (fetchQuotaForAccount lib net now email projectID accessToken)) = ''active''
   \<or> Status (fst (fetchQuotaForAccount lib net now email projectID accessToken)) = ''inactive''
   \<or> Status (fst (fetchQuotaForAccount lib net now email projectID accessToken)) = ''error''"
  using loop_status [of lib net now email projectID accessToken endpoints None]
  by (simp add: fetchQuotaForAccount_def)

lemma resolutionTask_status:
  "Status (fst (resolutionTask lib net now a)) = ''active''
   \<or> Status (fst (resolutionTask lib net now a)) = ''inactive''
   \<or> Status (fst (resolutionTask lib net now a)) = ''error''"
proof -
  consider (refresh) "auth_expired a" "auth_refreshToken a \<noteq> []"
    | (stale) "auth_expired a" "auth_refreshToken a = []"
    | (valid) "\<not> auth_expired a"
    by blast
  then show ?thesis
  proof cases
    case refresh
    obtain r calls where r: "refreshAccessToken lib net (auth_refreshToken a) = (r, calls)"
      by (cases "refreshAccessToken lib net (auth_refreshToken a)") auto
    show ?thesis
    proof (cases r)
      case (Inl err)
      with refresh r show ?thesis by (simp add: resolutionTask_def)
    next
      case (Inr tok)
      obtain newToken expiresIn where tok: "tok = (newToken, expiresIn)" by (cases tok)
      obtain quota calls' where q:
        "fetchQuotaForAccount lib net now (auth_email a) (auth_projectID a) newToken = (quota, calls')"
        by (cases "fetchQuotaForAccount lib net now (auth_email a) (auth_projectID a) newToken") auto
      from fetchQuotaForAccount_status [of lib net now "auth_email a" "auth_projectID a" newToken]
      show ?thesis
        using refresh r Inr tok q by (simp add: resolutionTask_def)
    qed
  next
    case stale
    then show ?thesis by (simp add: resolutionTask_def)
  next
    case valid
    from fetchQuotaForAccount_status [of lib net now "auth_email a" "auth_projectID a" "auth_accessToken a"]
    show ?thesis using valid by (simp add: resolutionTask_def)
  qed
qed

lemma set_arrival: "set (arrival rank n) = {0..<n}"
  by (simp add: arrival_def)

lemma length_arrival: "length (arrival rank n) = n"
  by (simp add: arrival_def)

lemma GetAntigravityQuota_Some:
  "\<exists>active inactive err.
     tally (map (\<lambda>i. fst (resolutionTask lib (nets i) now (selectAuths lib now allAuths [] ! i)))
              (arrival rank (length (selectAuths lib now allAuths []))))
       (0, 0, 0) = (active, inactive, err)
     \<and> GetAntigravityQuota lib nets rank now (Some allAuths) =
       (JSON_report 200
          \<lparr>TotalAccounts = int (length (selectAuths lib now allAuths [])),
            ActiveAccounts = active, InactiveAccounts = inactive, ErrorAccounts = err,
            Accounts =
              map (\<lambda>i. fst (resolutionTask lib (nets i) now (selectAuths lib now allAuths [] ! i)))
                (arrival rank (length (selectAuths lib now allAuths []))),
            ReportLastUpdated = now\<rparr>,
        map (\<lambda>i. snd (resolutionTask lib (nets i) now (selectAuths lib now allAuths [] ! i)))
          [0..<length (selectAuths lib now allAuths [])])"
proof -
  let ?auths = "selectAuths lib now allAuths []"
  let ?results = "map (\<lambda>i. resolutionTask lib (nets i) now (?auths ! i)) [0..<length ?auths]"
  have acc: "map (\<lambda>i. fst (?results ! i)) (arrival rank (length ?auths)) =
             map (\<lambda>i. fst (resolutionTask lib (nets i) now (?auths ! i)))
               (arrival rank (length ?auths))"
    by (rule map_cong) (simp_all add: set_arrival)
  obtain active inactive err where t:
    "tally (map (\<lambda>i. fst (resolutionTask lib (nets i) now (?auths ! i)))
              (arrival rank (length ?auths))) (0, 0, 0) = (active, inactive, err)"
    by (metis prod_cases3)
  show ?thesis
    apply (rule exI [of _ active], rule exI [of _ inactive], rule exI [of _ err])
    apply (simp only: GetAntigravityQuota_def option.case Let_def acc t prod.case length_map
        length_arrival)
    apply (simp add: comp_def)
    done
qed

subsection \<open>All candidates not found\<close>

text \<open>
  When every candidate endpoint answers 404, the three endpoints are called in their order
  and the account's status is \<open>error\<close> with the message of the last error.
\<close>

lemma all_candidates_not_found:
  assumes "\<forall>e \<in> set endpoints. \<exists>resp. post_fetchAvailableModels net e accessToken = Inr resp
             \<and> ReadErr resp = None \<and> StatusCode resp = 404"
  shows "fetchQuotaForAccount lib net now email projectID accessToken =
           (\<lparr>Email = email, ProjectID = projectID, Status = ''error'', ModelQuotas = [],
             Error = ''404: endpoint not found'', LastUpdated = now\<rparr>,
            map (\<lambda>e. QuotaCall e accessToken) endpoints)"
proof -
  have "endpoints \<noteq> []" by (simp add: endpoints_def)
  with loop_all_not_found [OF assms, of lib now email projectID None]
  show ?thesis by (simp add: fetchQuotaForAccount_def allEndpointsFailed_def)
qed

section \<open>Runs on the concrete inputs\<close>

lemma endpoints_nth:
  "endpoints ! 0 = ''https://daily-cloudcode-pa.googleapis.com/v1internal:fetchAvailableModels''"
  "endpoints ! 1 = ''https://daily-cloudcode-pa.sandbox.googleapis.com/v1internal:fetchAvailableModels''"
  "endpoints ! 2 = ''https://cloudcode-pa.googleapis.com/v1internal:fetchAvailableModels''"
  "endpoints ! 0 \<noteq> endpoints ! 1" "endpoints ! 1 \<noteq> endpoints ! 0"
  "endpoints ! 0 \<noteq> endpoints ! 2" "endpoints ! 2 \<noteq> endpoints ! 0"
  "endpoints ! 1 \<noteq> endpoints ! 2" "endpoints ! 2 \<noteq> endpoints ! 1"
  by (simp_all add: endpoints_def)

lemma fetchQuotaForAccount_unfold:
  "fetchQuotaForAccount lib net now email projectID accessToken =
     fetchQuotaForAccount_loop lib net now email projectID accessToken
       [endpoints ! 0, endpoints ! 1, endpoints ! 2] None"
  by (simp add: fetchQuotaForAccount_def endpoints_def)

lemma notFoundThenUnauthorized_run:
  "fetchQuotaForAccount lib notFoundThenUnauthorized now email projectID accessToken =
     (\<lparr>Email = email, ProjectID = projectID, Status = ''inactive'', ModelQuotas = [],
       Error = ''Access token expired. Please re-login: CLIProxyAPI -antigravity-login'',
       LastUpdated = now\<rparr>,
      [QuotaCall (endpoints ! 0) accessToken, QuotaCall (endpoints ! 1) accessToken])"
proof -
  have c0: "fst (callQuotaEndpoint lib notFoundThenUnauthorized now (endpoints ! 0)
                  email projectID accessToken) = Inl ''404: endpoint not found''"
    by (rule callQuotaEndpoint_404 [of _ _ _ "plainResponse 404 []"])
       (simp_all add: notFoundThenUnauthorized_def networkOf_def plainResponse_def)
  have c1: "fst (callQuotaEndpoint lib notFoundThenUnauthorized now (endpoints ! 1)
                  email projectID accessToken) = Inl ''unauthorized: access token expired''"
    by (rule callQuotaEndpoint_401 [of _ _ _ "plainResponse 401 ''token expired''"])
       (simp_all add: notFoundThenUnauthorized_def networkOf_def plainResponse_def endpoints_def)
  have u: "Contains ''unauthorized: access token expired'' ''unauthorized''
             \<or> Contains ''unauthorized: access token expired'' ''access token expired''"
    by simp
  show ?thesis
    by (simp only: fetchQuotaForAccount_unfold loop_step_advance [OF c0 notFound_text]
        loop_step_unauthorized [OF c1 u] fst_conv snd_conv)
qed

lemma forbiddenUnauthorizedBody_run:
  "fetchQuotaForAccount exampleLibrary forbiddenUnauthorizedBody 0 ''user@example.com''
     ''project-1'' ''token'' =
     (\<lparr>Email = ''user@example.com'', ProjectID = ''project-1'', Status = ''inactive'',
       ModelQuotas = [],
       Error = ''Access token expired. Please re-login: CLIProxyAPI -antigravity-login'',
       LastUpdated = 0\<rparr>,
      [QuotaCall (endpoints ! 0) ''token''])"
proof -
  have c0: "fst (callQuotaEndpoint exampleLibrary forbiddenUnauthorizedBody 0 (endpoints ! 0)
                  ''user@example.com'' ''project-1'' ''token'') =
              Inl (''forbidden: '' @ Body (plainResponse 403 ''unauthorized client''))"
    by (rule callQuotaEndpoint_403)
       (simp_all add: forbiddenUnauthorizedBody_def networkOf_def plainResponse_def)
  have u: "Contains (''forbidden: '' @ Body (plainResponse 403 ''unauthorized client'')) ''unauthorized''
             \<or> Contains (''forbidden: '' @ Body (plainResponse 403 ''unauthorized client''))
                  ''access token expired''"
    by (simp add: plainResponse_def)
  show ?thesis
    by (simp only: fetchQuotaForAccount_unfold loop_step_unauthorized [OF c0 u])
qed

lemma permission_denied_text:
  "\<not> Contains (''forbidden: '' @ Body (plainResponse 403 ''permission denied'')) ''unauthorized''"
  "\<not> Contains (''forbidden: '' @ Body (plainResponse 403 ''permission denied''))
       ''access token expired''"
  "Contains (''forbidden: '' @ Body (plainResponse 403 ''permission denied'')) ''forbidden''
     \<or> Contains (''forbidden: '' @ Body (plainResponse 403 ''permission denied'')) ''banned''"
  by (simp_all add: plainResponse_def)

lemma forbiddenTwoModels_calls:
  "snd (fetchQuotaForAccount exampleLibrary forbiddenTwoModels 0 ''user@example.com''
          ''project-1'' ''token'') =
     QuotaCall (endpoints ! 0) ''token'' #
     map (GenerateCall (generateEndpoint ''user@example.com'' ''project-1'') ''token'' ''project-1'')
       modelsToCheck"
proof -
  have c0: "fst (callQuotaEndpoint exampleLibrary forbiddenTwoModels 0 (endpoints ! 0)
                  ''user@example.com'' ''project-1'' ''token'') =
              Inl (''forbidden: '' @ Body (plainResponse 403 ''permission denied''))"
    by (rule callQuotaEndpoint_403)
       (simp_all add: forbiddenTwoModels_def networkOf_def plainResponse_def)
  show ?thesis
    by (simp only: fetchQuotaForAccount_unfold loop_step_forbidden [OF c0 permission_denied_text]
        snd_conv)
qed

lemma forbiddenTwoModels_probeFinds:
  "probeFinds exampleLibrary forbiddenTwoModels ''user@example.com'' ''project-1'' ''token'' m =
     (m = ''gemini-2.5-pro'' \<or> m = ''gemini-2.0-flash'')"
  by (simp add: probeFinds_def forbiddenTwoModels_def networkOf_def usableHeaders_def
      rateLimitResponse_def plainResponse_def exampleLibrary_def digitValue_def)

lemma forbiddenNoHeaders_calls:
  "snd (fetchQuotaForAccount exampleLibrary forbiddenNoHeaders 0 ''user@example.com''
          ''project-1'' ''token'') =
     QuotaCall (endpoints ! 0) ''token'' #
     map (GenerateCall (generateEndpoint ''user@example.com'' ''project-1'') ''token'' ''project-1'')
       modelsToCheck"
proof -
  have c0: "fst (callQuotaEndpoint exampleLibrary forbiddenNoHeaders 0 (endpoints ! 0)
                  ''user@example.com'' ''project-1'' ''token'') =
              Inl (''forbidden: '' @ Body (plainResponse 403 ''permission denied''))"
    by (rule callQuotaEndpoint_403)
       (simp_all add: forbiddenNoHeaders_def networkOf_def plainResponse_def)
  show ?thesis
    by (simp only: fetchQuotaForAccount_unfold loop_step_forbidden [OF c0 permission_denied_text]
        snd_conv)
qed

lemma forbiddenNoHeaders_probeFinds:
  "\<not> probeFinds exampleLibrary forbiddenNoHeaders ''user@example.com'' ''project-1'' ''token'' m"
  by (simp add: probeFinds_def forbiddenNoHeaders_def networkOf_def usableHeaders_def
      plainResponse_def)

lemma unauthorizedUnreadable_text:
  "\<not> Contains ''read response: unexpected EOF'' ''unauthorized''"
  "\<not> Contains ''read response: unexpected EOF'' ''access token expired''"
  "\<not> Contains ''read response: unexpected EOF'' ''forbidden''"
  "\<not> Contains ''read response: unexpected EOF'' ''banned''"
  "\<not> Contains ''read response: unexpected EOF'' ''404''"
  by simp_all

lemma serverErrorMentions404_text:
  "\<not> Contains ''API returned 500: upstream returned 404'' ''unauthorized''"
  "\<not> Contains ''API returned 500: upstream returned 404'' ''access token expired''"
  "\<not> Contains ''API returned 500: upstream returned 404'' ''forbidden''"
  "\<not> Contains ''API returned 500: upstream returned 404'' ''banned''"
  "Contains ''API returned 500: upstream returned 404'' ''404''"
  by simp_all

lemma selectAuth_examples:
  "selectAuth exampleLibrary 1700000000 expiredNoRefresh =
     Some \<lparr>auth_email = ''old@example.com'', auth_projectID = [], auth_accessToken = ''stale'',
           auth_refreshToken = [], auth_authID = ''auth-1'', auth_expired = True\<rparr>"
  "selectAuth exampleLibrary 1700000000 noAccessToken = None"
  "selectAuth exampleLibrary 1700000000 validAuth =
     Some \<lparr>auth_email = ''user@example.com'', auth_projectID = ''project-1'',
           auth_accessToken = ''token'', auth_refreshToken = [], auth_authID = ''auth-3'',
           auth_expired = False\<rparr>"
  by (simp_all add: selectAuth_def stringAt_def expiredNoRefresh_def noAccessToken_def
      validAuth_def exampleLibrary_def Let_def)

lemma accessTokenOf_examples:
  "accessTokenOf expiredNoRefresh = ''stale''"
  "accessTokenOf noAccessToken = []"
  "accessTokenOf validAuth = ''token''"
  by (simp_all add: accessTokenOf_def stringAt_def expiredNoRefresh_def noAccessToken_def
      validAuth_def)

lemma arrival_reversed: "arrival ((-) 2) (Suc (Suc 0)) = [Suc 0, 0]"
  by (simp add: arrival_def)

lemma example_run:
  "GetAntigravityQuota exampleLibrary (\<lambda>i. notFoundThenUnauthorized) (\<lambda>i. 2 - i) 1700000000
     (Some [expiredNoRefresh, noAccessToken, validAuth]) =
     (JSON_report 200
        \<lparr>TotalAccounts = 2, ActiveAccounts = 0, InactiveAccounts = 2, ErrorAccounts = 0,
          Accounts =
            [\<lparr>Email = ''user@example.com'', ProjectID = ''project-1'', Status = ''inactive'',
              ModelQuotas = [],
              Error = ''Access token expired. Please re-login: CLIProxyAPI -antigravity-login'',
              LastUpdated = 1700000000\<rparr>,
             \<lparr>Email = ''old@example.com'', ProjectID = [], Status = ''inactive'',
              ModelQuotas = [],
              Error = ''Access token expired and no refresh token available'',
              LastUpdated = 1700000000\<rparr>],
          ReportLastUpdated = 1700000000\<rparr>,
      [[], [QuotaCall (endpoints ! 0) ''token'', QuotaCall (endpoints ! 1) ''token'']])"
proof -
  have u: "[0..<2] = [0, 1]" by (simp add: upt_rec)
  show ?thesis
    by (simp add: GetAntigravityQuota_def selectAuth_examples arrival_reversed u
        resolutionTask_def notFoundThenUnauthorized_run Let_def)
qed

section \<open>The properties\<close>

subsection \<open>C1: forbidden, and the header probe yields nothing\<close>

text \<open>
  Claim C1, as amended. For every account whose primary quota fetch returns Forbidden (a
  candidate endpoint that is called answers 403) and whose header-probe fallback runs and
  yields no model data, the account's terminal Account Quota has the status \<open>inactive\<close>,
  no model quotas, and the error message "Access forbidden and fallback failed: no quota
  information extracted from headers": the fixed words for the forbidden cause, then the
  failure of the fallback. The claim as written gives the status \<open>error\<close>; line 332 of the
  source sets \<open>inactive\<close>.
\<close>

theorem forbidden_probe_nothing:
  assumes "QuotaCall e accessToken
             \<in> set (snd (fetchQuotaForAccount lib net now email projectID accessToken))"
    and "post_fetchAvailableModels net e accessToken = Inr resp"
    and "ReadErr resp = None" and "StatusCode resp = 403"
    and "GenerateCall (generateEndpoint email projectID) accessToken projectID m
           \<in> set (snd (fetchQuotaForAccount lib net now email projectID accessToken))"
    and "filter (probeFinds lib net email projectID accessToken) modelsToCheck = []"
  shows "fst (fetchQuotaForAccount lib net now email projectID accessToken) =
           \<lparr>Email = email, ProjectID = projectID, Status = ''inactive'', ModelQuotas = [],
            Error = ''Access forbidden and fallback failed: no quota information extracted from headers'',
            LastUpdated = now\<rparr>"
proof -
  let ?qs = "List.map_filter (probed lib net email projectID accessToken) modelsToCheck"
  have "length ?qs = 0"
    using assms(6) by (simp add: length_map_filter_probed)
  then have "fst (fetchQuotaFromHeaders lib net email projectID accessToken) =
               Inl ''no quota information extracted from headers''"
    by (simp add: fetchQuotaFromHeaders_fst)
  with loop_probe_ran [OF assms(5) [unfolded fetchQuotaForAccount_def]]
  show ?thesis by (simp add: fetchQuotaForAccount_def)
qed

text \<open>
  The theorem on the network whose endpoints answer 403 and whose generation API gives no
  rate-limit header.
\<close>

theorem forbidden_probe_nothing_witness:
  "post_fetchAvailableModels forbiddenNoHeaders (endpoints ! 0) ''token'' =
     Inr (plainResponse 403 ''permission denied'')
   \<and> GenerateCall (generateEndpoint ''user@example.com'' ''project-1'') ''token'' ''project-1''
       ''gemini-2.5-pro''
       \<in> set (snd (fetchQuotaForAccount exampleLibrary forbiddenNoHeaders 0 ''user@example.com''
                      ''project-1'' ''token''))
   \<and> filter (probeFinds exampleLibrary forbiddenNoHeaders ''user@example.com'' ''project-1'' ''token'')
       modelsToCheck = []
   \<and> fst (fetchQuotaForAccount exampleLibrary forbiddenNoHeaders 0 ''user@example.com''
            ''project-1'' ''token'') =
       \<lparr>Email = ''user@example.com'', ProjectID = ''project-1'', Status = ''inactive'',
        ModelQuotas = [],
        Error = ''Access forbidden and fallback failed: no quota information extracted from headers'',
        LastUpdated = 0\<rparr>"
proof -
  let ?resp = "plainResponse 403 ''permission denied''"
  let ?R = "fetchQuotaForAccount exampleLibrary forbiddenNoHeaders 0 ''user@example.com''
              ''project-1'' ''token''"
  have h1: "QuotaCall (endpoints ! 0) ''token'' \<in> set (snd ?R)"
    by (simp only: forbiddenNoHeaders_calls) simp
  have h2: "post_fetchAvailableModels forbiddenNoHeaders (endpoints ! 0) ''token'' = Inr ?resp"
    by (simp add: forbiddenNoHeaders_def networkOf_def)
  have h3: "ReadErr ?resp = None" and h4: "StatusCode ?resp = 403"
    by (simp_all add: plainResponse_def)
  have h5: "GenerateCall (generateEndpoint ''user@example.com'' ''project-1'') ''token''
              ''project-1'' ''gemini-2.5-pro'' \<in> set (snd ?R)"
    by (simp only: forbiddenNoHeaders_calls) (simp add: modelsToCheck_def)
  have h6: "filter (probeFinds exampleLibrary forbiddenNoHeaders ''user@example.com'' ''project-1''
                      ''token'') modelsToCheck = []"
    by (simp add: forbiddenNoHeaders_probeFinds)
  from forbidden_probe_nothing [OF h1 h2 h3 h4 h5 h6] h2 h5 h6
  show ?thesis by simp
qed

text \<open>
  Claim C1 as written fails on that network: the primary fetch returns Forbidden, the header
  probe yields no model data, and the status is \<open>inactive\<close>, not \<open>error\<close>.
\<close>

theorem forbidden_probe_nothing_status_not_error:
  "post_fetchAvailableModels forbiddenNoHeaders (endpoints ! 0) ''token'' =
     Inr (plainResponse 403 ''permission denied'')
   \<and> StatusCode (plainResponse 403 ''permission denied'') = 403
   \<and> fst (fetchQuotaFromHeaders exampleLibrary forbiddenNoHeaders ''user@example.com''
            ''project-1'' ''token'') = Inl ''no quota information extracted from headers''
   \<and> Status (fst (fetchQuotaForAccount exampleLibrary forbiddenNoHeaders 0 ''user@example.com''
                    ''project-1'' ''token'')) = ''inactive''
   \<and> Status (fst (fetchQuotaForAccount exampleLibrary forbiddenNoHeaders 0 ''user@example.com''
                    ''project-1'' ''token'')) \<noteq> ''error''"
proof -
  have c0: "fst (callQuotaEndpoint exampleLibrary forbiddenNoHeaders 0 (endpoints ! 0)
                  ''user@example.com'' ''project-1'' ''token'') =
              Inl (''forbidden: '' @ Body (plainResponse 403 ''permission denied''))"
    by (rule callQuotaEndpoint_403)
       (simp_all add: forbiddenNoHeaders_def networkOf_def plainResponse_def)
  have "length (List.map_filter
          (probed exampleLibrary forbiddenNoHeaders ''user@example.com'' ''project-1'' ''token'')
          modelsToCheck) = 0"
    by (simp add: length_map_filter_probed forbiddenNoHeaders_probeFinds)
  then have f: "fst (fetchQuotaFromHeaders exampleLibrary forbiddenNoHeaders ''user@example.com''
                      ''project-1'' ''token'') = Inl ''no quota information extracted from headers''"
    by (simp add: fetchQuotaFromHeaders_fst)
  have r: "fst (fetchQuotaForAccount exampleLibrary forbiddenNoHeaders 0 ''user@example.com''
                  ''project-1'' ''token'') =
             \<lparr>Email = ''user@example.com'', ProjectID = ''project-1'', Status = ''inactive'',
              ModelQuotas = [],
              Error = ''Access forbidden and fallback failed: '' @
                      ''no quota information extracted from headers'',
              LastUpdated = 0\<rparr>"
    by (simp only: fetchQuotaForAccount_unfold loop_step_forbidden [OF c0 permission_denied_text]
        fst_conv f sum.case)
  have h2: "post_fetchAvailableModels forbiddenNoHeaders (endpoints ! 0) ''token'' =
              Inr (plainResponse 403 ''permission denied'')"
    by (simp add: forbiddenNoHeaders_def networkOf_def)
  show ?thesis
    using h2 f by (simp add: r plainResponse_def)
qed

subsection \<open>C2: 401 short-circuits\<close>

text \<open>
  Claim C2, as amended. If a candidate endpoint that \<open>fetchQuotaForAccount\<close> calls answers
  401 and the body of the response is read without error, the result is the Account Quota
  with status \<open>inactive\<close> and the re-login message, and the calls made are exactly the
  quota calls to the candidate endpoints before that one and to that one, in order: no
  further endpoint is tried and the header probe is not run. The claim as written has no
  condition on the body; \<open>callQuotaEndpoint\<close> reads the body (lines 386-389) before it
  tests the status code (line 392), and returns the read error when the reading fails.
\<close>

theorem unauthorized_short_circuit:
  assumes "QuotaCall e accessToken
             \<in> set (snd (fetchQuotaForAccount lib net now email projectID accessToken))"
    and "post_fetchAvailableModels net e accessToken = Inr resp"
    and "ReadErr resp = None" and "StatusCode resp = 401"
  shows "fetchQuotaForAccount lib net now email projectID accessToken =
           (\<lparr>Email = email, ProjectID = projectID, Status = ''inactive'', ModelQuotas = [],
             Error = ''Access token expired. Please re-login: CLIProxyAPI -antigravity-login'',
             LastUpdated = now\<rparr>,
            map (\<lambda>x. QuotaCall x accessToken) (takeWhile (\<lambda>x. x \<noteq> e) endpoints @ [e]))"
proof -
  have c: "fst (callQuotaEndpoint lib net now e email projectID accessToken) =
             Inl ''unauthorized: access token expired''"
    by (rule callQuotaEndpoint_401 [OF assms(2-4)])
  have u: "Contains ''unauthorized: access token expired'' ''unauthorized''
             \<or> Contains ''unauthorized: access token expired'' ''access token expired''"
    using Contains_unauthorized by simp
  from loop_unauthorized_reached [OF assms(1) [unfolded fetchQuotaForAccount_def] c u]
  show ?thesis by (simp add: fetchQuotaForAccount_def)
qed

text \<open>
  The theorem on the network whose first endpoint answers 404 and whose second answers 401.
\<close>

theorem unauthorized_short_circuit_witness:
  "QuotaCall (endpoints ! 1) ''token''
     \<in> set (snd (fetchQuotaForAccount exampleLibrary notFoundThenUnauthorized 0
                    ''user@example.com'' ''project-1'' ''token''))
   \<and> post_fetchAvailableModels notFoundThenUnauthorized (endpoints ! 1) ''token'' =
       Inr (plainResponse 401 ''token expired'')
   \<and> fetchQuotaForAccount exampleLibrary notFoundThenUnauthorized 0 ''user@example.com''
         ''project-1'' ''token'' =
       (\<lparr>Email = ''user@example.com'', ProjectID = ''project-1'', Status = ''inactive'',
         ModelQuotas = [],
         Error = ''Access token expired. Please re-login: CLIProxyAPI -antigravity-login'',
         LastUpdated = 0\<rparr>,
        [QuotaCall (endpoints ! 0) ''token'', QuotaCall (endpoints ! 1) ''token''])"
proof -
  have h1: "QuotaCall (endpoints ! 1) ''token''
              \<in> set (snd (fetchQuotaForAccount exampleLibrary notFoundThenUnauthorized 0
                             ''user@example.com'' ''project-1'' ''token''))"
    by (simp only: notFoundThenUnauthorized_run snd_conv) simp
  have h2: "post_fetchAvailableModels notFoundThenUnauthorized (endpoints ! 1) ''token'' =
              Inr (plainResponse 401 ''token expired'')"
    by (simp add: notFoundThenUnauthorized_def networkOf_def endpoints_def)
  have h3: "ReadErr (plainResponse 401 ''token expired'') = None"
    and h4: "StatusCode (plainResponse 401 ''token expired'') = 401"
    by (simp_all add: plainResponse_def)
  have t: "takeWhile (\<lambda>x. x \<noteq> endpoints ! 1) endpoints @ [endpoints ! 1] =
             [endpoints ! 0, endpoints ! 1]"
    by (simp add: endpoints_def)
  from unauthorized_short_circuit [OF h1 h2 h3 h4] h1 h2
  show ?thesis by (simp only: t list.map simp_thms)
qed

text \<open>
  Claim C2 as written fails on the network whose endpoints answer 401 with a body that
  cannot be read: the first endpoint is called and answers 401, and the result has the
  status \<open>error\<close> with the message of the read error, not \<open>inactive\<close>. No further
  endpoint is tried and the header probe is not run.
\<close>

theorem unauthorized_unreadable_body_is_error:
  "post_fetchAvailableModels unauthorizedUnreadable (endpoints ! 0) ''token'' =
     Inr \<lparr>StatusCode = 401, Header_Get = (\<lambda>key. []), Body = [],
          ReadErr = Some ''unexpected EOF''\<rparr>
   \<and> QuotaCall (endpoints ! 0) ''token''
       \<in> set (snd (fetchQuotaForAccount exampleLibrary unauthorizedUnreadable 0
                      ''user@example.com'' ''project-1'' ''token''))
   \<and> fetchQuotaForAccount exampleLibrary unauthorizedUnreadable 0 ''user@example.com''
         ''project-1'' ''token'' =
       (\<lparr>Email = ''user@example.com'', ProjectID = ''project-1'', Status = ''error'',
         ModelQuotas = [], Error = ''read response: unexpected EOF'', LastUpdated = 0\<rparr>,
        [QuotaCall (endpoints ! 0) ''token''])
   \<and> Status (fst (fetchQuotaForAccount exampleLibrary unauthorizedUnreadable 0
                    ''user@example.com'' ''project-1'' ''token'')) \<noteq> ''inactive''"
proof -
  have h: "post_fetchAvailableModels unauthorizedUnreadable (endpoints ! 0) ''token'' =
             Inr \<lparr>StatusCode = 401, Header_Get = (\<lambda>key. []), Body = [],
                  ReadErr = Some ''unexpected EOF''\<rparr>"
    by (simp add: unauthorizedUnreadable_def networkOf_def)
  have c0: "fst (callQuotaEndpoint exampleLibrary unauthorizedUnreadable 0 (endpoints ! 0)
                  ''user@example.com'' ''project-1'' ''token'') =
              Inl ''read response: unexpected EOF''"
    by (simp add: callQuotaEndpoint_def h)
  have r: "fetchQuotaForAccount exampleLibrary unauthorizedUnreadable 0 ''user@example.com''
             ''project-1'' ''token'' =
           (\<lparr>Email = ''user@example.com'', ProjectID = ''project-1'', Status = ''error'',
             ModelQuotas = [], Error = ''read response: unexpected EOF'', LastUpdated = 0\<rparr>,
            [QuotaCall (endpoints ! 0) ''token''])"
    by (simp only: fetchQuotaForAccount_unfold loop_step_break [OF c0 unauthorizedUnreadable_text]
        allEndpointsFailed_def Let_def option.case)
  show ?thesis
    using h by (simp add: r)
qed

subsection \<open>C3: the counts of the report\<close>

text \<open>
  Claim C3. In every Quota Report that \<open>GetAntigravityQuota\<close> produces, whatever the order
  in which the tasks deliver their results, \<open>active_accounts + inactive_accounts +
  error_accounts = total_accounts\<close>, \<open>total_accounts\<close> is the number of entries of
  \<open>accounts\<close>, and every entry has a status that is one of \<open>active\<close>, \<open>inactive\<close>,
  \<open>error\<close>.
\<close>

theorem report_counts_add_up:
  assumes "GetAntigravityQuota lib nets rank now authManager = (JSON_report code report, calls)"
  shows "ActiveAccounts report + InactiveAccounts report + ErrorAccounts report
           = TotalAccounts report
         \<and> TotalAccounts report = int (length (Accounts report))
         \<and> (\<forall>account \<in> set (Accounts report).
               Status account = ''active'' \<or> Status account = ''inactive''
               \<or> Status account = ''error'')"
proof (cases authManager)
  case None
  with assms show ?thesis by (simp add: GetAntigravityQuota_def)
next
  case (Some allAuths)
  let ?auths = "selectAuths lib now allAuths []"
  let ?accounts = "map (\<lambda>i. fst (resolutionTask lib (nets i) now (?auths ! i)))
                     (arrival rank (length ?auths))"
  from GetAntigravityQuota_Some [of lib nets now allAuths rank]
  obtain active inactive err where
    t: "tally ?accounts (0, 0, 0) = (active, inactive, err)" and
    g: "GetAntigravityQuota lib nets rank now (Some allAuths) =
          (JSON_report 200
             \<lparr>TotalAccounts = int (length ?auths), ActiveAccounts = active,
               InactiveAccounts = inactive, ErrorAccounts = err, Accounts = ?accounts,
               ReportLastUpdated = now\<rparr>,
           map (\<lambda>i. snd (resolutionTask lib (nets i) now (?auths ! i))) [0..<length ?auths])"
    by blast
  from assms Some g have report:
    "report = \<lparr>TotalAccounts = int (length ?auths), ActiveAccounts = active,
                InactiveAccounts = inactive, ErrorAccounts = err, Accounts = ?accounts,
                ReportLastUpdated = now\<rparr>"
    by simp
  have statuses: "\<forall>account \<in> set ?accounts.
      Status account = ''active'' \<or> Status account = ''inactive'' \<or> Status account = ''error''"
    using resolutionTask_status by auto
  from tally_sum [OF statuses t] have "active + inactive + err = int (length ?accounts)"
    by simp
  with statuses show ?thesis
    by (simp add: report length_arrival)
qed

text \<open>
  The theorem on a store of three records, of which two are selected; the second task
  delivers first.
\<close>

theorem report_counts_add_up_witness:
  "\<exists>report calls.
     GetAntigravityQuota exampleLibrary (\<lambda>i. notFoundThenUnauthorized) (\<lambda>i. 2 - i) 1700000000
       (Some [expiredNoRefresh, noAccessToken, validAuth]) = (JSON_report 200 report, calls)
     \<and> ActiveAccounts report + InactiveAccounts report + ErrorAccounts report
         = TotalAccounts report
     \<and> TotalAccounts report = int (length (Accounts report))
     \<and> TotalAccounts report = 2 \<and> InactiveAccounts report = 2"
  using report_counts_add_up [OF example_run] example_run by simp

subsection \<open>C4: forbidden, and the header probe finds two models\<close>

text \<open>
  Claim C4. If a candidate endpoint that is called answers 403 and the header probe finds
  exactly two models of the probe list with usable rate-limit headers (it probes them, and
  the other models give an error or no usable header), the Account Quota has the status
  \<open>active\<close>, exactly two Model Quota entries (those two models, in the order of the list)
  and no error message: nothing of the Forbidden response is kept.
\<close>

theorem forbidden_probe_two_models:
  assumes "QuotaCall e accessToken
             \<in> set (snd (fetchQuotaForAccount lib net now email projectID accessToken))"
    and "post_fetchAvailableModels net e accessToken = Inr resp"
    and "ReadErr resp = None" and "StatusCode resp = 403"
    and "length (filter
            (\<lambda>m. GenerateCall (generateEndpoint email projectID) accessToken projectID m
                    \<in> set (snd (fetchQuotaForAccount lib net now email projectID accessToken))
                  \<and> probeFinds lib net email projectID accessToken m)
            modelsToCheck) = 2"
  shows "Status (fst (fetchQuotaForAccount lib net now email projectID accessToken)) = ''active''
         \<and> length (ModelQuotas (fst (fetchQuotaForAccount lib net now email projectID accessToken))) = 2
         \<and> map Model (ModelQuotas (fst (fetchQuotaForAccount lib net now email projectID accessToken)))
             = filter (probeFinds lib net email projectID accessToken) modelsToCheck
         \<and> Error (fst (fetchQuotaForAccount lib net now email projectID accessToken)) = []"
proof -
  let ?R = "fetchQuotaForAccount lib net now email projectID accessToken"
  let ?G = "GenerateCall (generateEndpoint email projectID) accessToken projectID"
  let ?qs = "List.map_filter (probed lib net email projectID accessToken) modelsToCheck"
  from assms(5) have "filter (\<lambda>m. ?G m \<in> set (snd ?R)
         \<and> probeFinds lib net email projectID accessToken m) modelsToCheck \<noteq> []"
    by auto
  then obtain m where m: "?G m \<in> set (snd ?R)"
    by (auto simp add: filter_empty_conv)
  note ran = m [unfolded fetchQuotaForAccount_def]
  have all: "set (map ?G modelsToCheck) \<subseteq> set (snd ?R)"
    using loop_probe_ran_calls [OF ran] by (simp add: fetchQuotaForAccount_def)
  have "filter (\<lambda>m. ?G m \<in> set (snd ?R) \<and> probeFinds lib net email projectID accessToken m)
          modelsToCheck = filter (probeFinds lib net email projectID accessToken) modelsToCheck"
    using all by (intro filter_cong) auto
  with assms(5) have two: "length ?qs = 2"
    by (simp add: length_map_filter_probed)
  then have ne: "?qs \<noteq> []" by auto
  have f: "fst (fetchQuotaFromHeaders lib net email projectID accessToken) = Inr ?qs"
    using ne by (simp add: fetchQuotaFromHeaders_fst)
  have r: "fst ?R = \<lparr>Email = email, ProjectID = projectID, Status = ''active'',
                      ModelQuotas = ?qs, Error = [], LastUpdated = now\<rparr>"
    using loop_probe_ran [OF ran] f by (simp add: fetchQuotaForAccount_def)
  show ?thesis
    using r two by (simp add: map_Model_map_filter_probed)
qed

text \<open>
  The theorem on the network whose endpoints answer 403 and whose generation API gives
  rate-limit headers for \<open>gemini-2.5-pro\<close> and \<open>gemini-2.0-flash\<close> only.
\<close>

theorem forbidden_probe_two_models_witness:
  "post_fetchAvailableModels forbiddenTwoModels (endpoints ! 0) ''token'' =
     Inr (plainResponse 403 ''permission denied'')
   \<and> filter (probeFinds exampleLibrary forbiddenTwoModels ''user@example.com'' ''project-1'' ''token'')
       modelsToCheck = [''gemini-2.5-pro'', ''gemini-2.0-flash'']
   \<and> Status (fst (fetchQuotaForAccount exampleLibrary forbiddenTwoModels 0 ''user@example.com''
                    ''project-1'' ''token'')) = ''active''
   \<and> map Model (ModelQuotas (fst (fetchQuotaForAccount exampleLibrary forbiddenTwoModels 0
                    ''user@example.com'' ''project-1'' ''token''))) =
       [''gemini-2.5-pro'', ''gemini-2.0-flash'']
   \<and> Error (fst (fetchQuotaForAccount exampleLibrary forbiddenTwoModels 0 ''user@example.com''
                   ''project-1'' ''token'')) = []"
proof -
  let ?resp = "plainResponse 403 ''permission denied''"
  let ?R = "fetchQuotaForAccount exampleLibrary forbiddenTwoModels 0 ''user@example.com''
              ''project-1'' ''token''"
  have h1: "QuotaCall (endpoints ! 0) ''token'' \<in> set (snd ?R)"
    by (simp only: forbiddenTwoModels_calls) simp
  have h2: "post_fetchAvailableModels forbiddenTwoModels (endpoints ! 0) ''token'' = Inr ?resp"
    by (simp add: forbiddenTwoModels_def networkOf_def)
  have h3: "ReadErr ?resp = None" and h4: "StatusCode ?resp = 403"
    by (simp_all add: plainResponse_def)
  have f: "filter (probeFinds exampleLibrary forbiddenTwoModels ''user@example.com'' ''project-1''
                     ''token'') modelsToCheck = [''gemini-2.5-pro'', ''gemini-2.0-flash'']"
    by (simp add: forbiddenTwoModels_probeFinds modelsToCheck_def)
  have h5: "length (filter
              (\<lambda>m. GenerateCall (generateEndpoint ''user@example.com'' ''project-1'') ''token''
                      ''project-1'' m \<in> set (snd ?R)
                    \<and> probeFinds exampleLibrary forbiddenTwoModels ''user@example.com''
                        ''project-1'' ''token'' m)
              modelsToCheck) = 2"
  proof -
    have "filter
            (\<lambda>m. GenerateCall (generateEndpoint ''user@example.com'' ''project-1'') ''token''
                    ''project-1'' m \<in> set (snd ?R)
                  \<and> probeFinds exampleLibrary forbiddenTwoModels ''user@example.com''
                      ''project-1'' ''token'' m)
            modelsToCheck =
          filter (probeFinds exampleLibrary forbiddenTwoModels ''user@example.com'' ''project-1''
                    ''token'') modelsToCheck"
      by (rule filter_cong) (simp_all add: forbiddenTwoModels_calls)
    then show ?thesis by (simp only: f) simp
  qed
  from forbidden_probe_two_models [OF h1 h2 h3 h4 h5] h2 f
  show ?thesis by simp
qed

subsection \<open>C5: advancing to the next candidate\<close>

text \<open>
  Claim C5 says that the client advances to the next candidate exactly on a NotFound
  result. The source advances on every error whose message contains "404" and none of
  "unauthorized", "access token expired", "forbidden", "banned" (lines 338-343, under the
  comment "If not a 404, return the error"), and the message of an error of another kind
  embeds the response body. Here the first endpoint answers 500 with the body "upstream
  returned 404": the error is "API returned 500: upstream returned 404", not a NotFound
  result, and the second endpoint is called all the same. (That three NotFound results
  give the status \<open>error\<close> with the last message is \<open>all_candidates_not_found\<close> above.)
\<close>

theorem server_error_mentioning_404_advances:
  "post_fetchAvailableModels serverErrorMentions404 (endpoints ! 0) ''token'' =
     Inr (plainResponse 500 ''upstream returned 404'')
   \<and> fst (callQuotaEndpoint exampleLibrary serverErrorMentions404 0 (endpoints ! 0)
            ''user@example.com'' ''project-1'' ''token'') =
       Inl ''API returned 500: upstream returned 404''
   \<and> snd (fetchQuotaForAccount exampleLibrary serverErrorMentions404 0 ''user@example.com''
            ''project-1'' ''token'') =
       [QuotaCall (endpoints ! 0) ''token'', QuotaCall (endpoints ! 1) ''token'']
   \<and> Status (fst (fetchQuotaForAccount exampleLibrary serverErrorMentions404 0 ''user@example.com''
                    ''project-1'' ''token'')) = ''active''"
proof -
  have h: "post_fetchAvailableModels serverErrorMentions404 (endpoints ! 0) ''token'' =
             Inr (plainResponse 500 ''upstream returned 404'')"
    by (simp add: serverErrorMentions404_def networkOf_def)
  have c0: "fst (callQuotaEndpoint exampleLibrary serverErrorMentions404 0 (endpoints ! 0)
                  ''user@example.com'' ''project-1'' ''token'') =
              Inl ''API returned 500: upstream returned 404''"
    by (simp add: callQuotaEndpoint_def h plainResponse_def fmt_d_def decimal.simps)
  have "\<exists>quota. fst (callQuotaEndpoint exampleLibrary serverErrorMentions404 0 (endpoints ! 1)
                  ''user@example.com'' ''project-1'' ''token'') = Inr quota"
    by (simp add: callQuotaEndpoint_def serverErrorMentions404_def networkOf_def plainResponse_def
        exampleLibrary_def exampleModels_def buildQuotasFromMap_def endpoints_def)
  then obtain quota where c1:
    "fst (callQuotaEndpoint exampleLibrary serverErrorMentions404 0 (endpoints ! 1)
            ''user@example.com'' ''project-1'' ''token'') = Inr quota"
    by blast
  have r: "fetchQuotaForAccount exampleLibrary serverErrorMentions404 0 ''user@example.com''
             ''project-1'' ''token'' =
           (quota, [QuotaCall (endpoints ! 0) ''token'', QuotaCall (endpoints ! 1) ''token''])"
    by (simp only: fetchQuotaForAccount_unfold
        loop_step_advance [OF c0 serverErrorMentions404_text] loop_step_ok [OF c1]
        fst_conv snd_conv)
  show ?thesis
    using h c0 callQuotaEndpoint_active [OF c1] by (simp add: r)
qed

subsection \<open>C6: expired, and no refresh token\<close>

text \<open>
  Claim C6. For every selected account whose stored expiry marker parses to a time before
  now and whose record has no refresh token (none, one that is not a string, or the empty
  string), the resolution task emits an Account Quota with the status \<open>inactive\<close> and the
  error message "Access token expired and no refresh token available", and makes no call
  at all: neither a primary endpoint nor the header probe is invoked.
\<close>

theorem expired_without_refresh_token_is_inactive:
  assumes "selectAuth lib now auth = Some a"
    and "Metadata auth = Some m"
    and "stringAt m ''expired'' = Some expiredStr" and "expiredStr \<noteq> []"
    and "Parse_RFC3339 lib expiredStr = Some expiredTime" and "expiredTime < now"
    and "stringAt m ''refresh_token'' = None \<or> stringAt m ''refresh_token'' = Some []"
  shows "resolutionTask lib net now a =
           (\<lparr>Email = auth_email a, ProjectID = auth_projectID a, Status = ''inactive'',
             ModelQuotas = [], Error = ''Access token expired and no refresh token available'',
             LastUpdated = now\<rparr>, [])
         \<and> Error (fst (resolutionTask lib net now a)) \<noteq> []"
proof -
  from assms have "auth_expired a \<and> auth_refreshToken a = []"
    by (auto simp add: selectAuth_def Let_def split: if_splits)
  then show ?thesis by (simp add: resolutionTask_def)
qed

text \<open>
  The theorem on the record whose expiry marker is 2020-01-01T00:00:00Z, at a clock
  reading in 2023.
\<close>

theorem expired_without_refresh_token_is_inactive_witness:
  "selectAuth exampleLibrary 1700000000 expiredNoRefresh =
     Some \<lparr>auth_email = ''old@example.com'', auth_projectID = [], auth_accessToken = ''stale'',
           auth_refreshToken = [], auth_authID = ''auth-1'', auth_expired = True\<rparr>
   \<and> Parse_RFC3339 exampleLibrary ''2020-01-01T00:00:00Z'' = Some 1577836800
   \<and> resolutionTask exampleLibrary forbiddenTwoModels 1700000000
        \<lparr>auth_email = ''old@example.com'', auth_projectID = [], auth_accessToken = ''stale'',
          auth_refreshToken = [], auth_authID = ''auth-1'', auth_expired = True\<rparr> =
       (\<lparr>Email = ''old@example.com'', ProjectID = [], Status = ''inactive'', ModelQuotas = [],
         Error = ''Access token expired and no refresh token available'',
         LastUpdated = 1700000000\<rparr>, [])"
proof -
  let ?m = "map_of
        [(''email'', StringValue ''old@example.com''),
         (''access_token'', StringValue ''stale''),
         (''expired'', StringValue ''2020-01-01T00:00:00Z'')]"
  have h2: "Metadata expiredNoRefresh = Some ?m"
    by (simp add: expiredNoRefresh_def)
  have h3: "stringAt ?m ''expired'' = Some ''2020-01-01T00:00:00Z''"
    by (simp add: stringAt_def)
  have h4: "''2020-01-01T00:00:00Z'' \<noteq> []" by simp
  have h5: "Parse_RFC3339 exampleLibrary ''2020-01-01T00:00:00Z'' = Some 1577836800"
    by (simp add: exampleLibrary_def)
  have h6: "(1577836800 :: int) < 1700000000" by simp
  have h7: "stringAt ?m ''refresh_token'' = None \<or> stringAt ?m ''refresh_token'' = Some []"
    by (simp add: stringAt_def)
  from expired_without_refresh_token_is_inactive
         [OF selectAuth_examples(1) h2 h3 h4 h5 h6 h7, of forbiddenTwoModels]
    selectAuth_examples(1) h5
  show ?thesis by simp
qed

subsection \<open>C7: records without an access token\<close>

text \<open>
  Claim C7. A credential record whose access token is empty (or missing, or not a string)
  is never selected; the whole result of \<open>GetAntigravityQuota\<close> (the report with its
  accounts and counts, and the calls of every task) is the same as on the store with these
  records removed; and \<open>total_accounts\<close> and the length of \<open>accounts\<close> are the number of
  selected records.
\<close>

theorem empty_access_token_excluded:
  "(\<forall>auth \<in> set allAuths. accessTokenOf auth = [] \<longrightarrow> selectAuth lib now auth = None)
   \<and> GetAntigravityQuota lib nets rank now (Some allAuths) =
       GetAntigravityQuota lib nets rank now
         (Some (filter (\<lambda>auth. accessTokenOf auth \<noteq> []) allAuths))
   \<and> (\<forall>code report calls.
         GetAntigravityQuota lib nets rank now (Some allAuths) = (JSON_report code report, calls) \<longrightarrow>
         TotalAccounts report =
           int (length (filter (\<lambda>auth. selectAuth lib now auth \<noteq> None) allAuths))
         \<and> length (Accounts report) =
             length (filter (\<lambda>auth. selectAuth lib now auth \<noteq> None) allAuths))"
proof (intro conjI ballI allI impI)
  fix auth
  assume "accessTokenOf auth = []"
  then show "selectAuth lib now auth = None" by (rule selectAuth_no_token)
next
  show "GetAntigravityQuota lib nets rank now (Some allAuths) =
        GetAntigravityQuota lib nets rank now
          (Some (filter (\<lambda>auth. accessTokenOf auth \<noteq> []) allAuths))"
    by (simp add: GetAntigravityQuota_def selectAuths_filter)
next
  fix code report calls
  assume a: "GetAntigravityQuota lib nets rank now (Some allAuths) = (JSON_report code report, calls)"
  from GetAntigravityQuota_Some [of lib nets now allAuths rank] a
  have "TotalAccounts report = int (length (selectAuths lib now allAuths []))
        \<and> length (Accounts report) = length (selectAuths lib now allAuths [])"
    by (auto simp add: length_arrival)
  then show "TotalAccounts report =
               int (length (filter (\<lambda>auth. selectAuth lib now auth \<noteq> None) allAuths))"
    and "length (Accounts report) =
           length (filter (\<lambda>auth. selectAuth lib now auth \<noteq> None) allAuths)"
    by (simp_all add: selectAuths_eq length_map_filter)
qed

text \<open>
  The theorem on the store of three records of which the second has no access token.
\<close>

theorem empty_access_token_excluded_witness:
  "accessTokenOf noAccessToken = []
   \<and> selectAuth exampleLibrary 1700000000 noAccessToken = None
   \<and> GetAntigravityQuota exampleLibrary (\<lambda>i. notFoundThenUnauthorized) (\<lambda>i. 2 - i) 1700000000
        (Some [expiredNoRefresh, noAccessToken, validAuth]) =
       GetAntigravityQuota exampleLibrary (\<lambda>i. notFoundThenUnauthorized) (\<lambda>i. 2 - i) 1700000000
        (Some [expiredNoRefresh, validAuth])
   \<and> length (filter (\<lambda>auth. selectAuth exampleLibrary 1700000000 auth \<noteq> None)
               [expiredNoRefresh, noAccessToken, validAuth]) = 2"
proof -
  have f: "filter (\<lambda>auth. accessTokenOf auth \<noteq> []) [expiredNoRefresh, noAccessToken, validAuth] =
             [expiredNoRefresh, validAuth]"
    by (simp add: accessTokenOf_examples)
  have n: "noAccessToken \<in> set [expiredNoRefresh, noAccessToken, validAuth]" by simp
  note t = empty_access_token_excluded
             [of "[expiredNoRefresh, noAccessToken, validAuth]" exampleLibrary 1700000000
                 "\<lambda>i. notFoundThenUnauthorized" "\<lambda>i. 2 - i"]
  from t n accessTokenOf_examples(2)
  have "selectAuth exampleLibrary 1700000000 noAccessToken = None" by blast
  moreover from t have
    "GetAntigravityQuota exampleLibrary (\<lambda>i. notFoundThenUnauthorized) (\<lambda>i. 2 - i) 1700000000
       (Some [expiredNoRefresh, noAccessToken, validAuth]) =
     GetAntigravityQuota exampleLibrary (\<lambda>i. notFoundThenUnauthorized) (\<lambda>i. 2 - i) 1700000000
       (Some [expiredNoRefresh, validAuth])"
    unfolding f by blast
  ultimately show ?thesis
    by (simp add: accessTokenOf_examples selectAuth_examples)
qed

subsection \<open>C8: Format B\<close>

text \<open>
  Claim C8. When a response of status 200 does not parse as Format A (the decoding fails
  or yields no model) and parses as Format B with at least one model, \<open>callQuotaEndpoint\<close>
  returns an active Account Quota whose Model Quota entries are, in the order of the map's
  iteration, exactly the models that carry a quota-info block with a remaining fraction,
  each with \<open>remaining_percent = remainingFraction \<times> 100\<close> in float64 arithmetic; models
  without quota-info have no entry. In particular a model whose remaining fraction is the
  float64 nearest to 0.4 gets the remaining percent 40.0 exactly.
\<close>

theorem format_b_remaining_percent:
  assumes "post_fetchAvailableModels net endpoint accessToken = Inr resp"
    and "ReadErr resp = None" and "StatusCode resp = 200"
    and "Unmarshal_Array lib (Body resp) = None \<or> Unmarshal_Array lib (Body resp) = Some []"
    and "Unmarshal_Map lib (Body resp) = Some models" and "models \<noteq> []"
  shows "\<exists>quota.
           fst (callQuotaEndpoint lib net now endpoint email projectID accessToken) = Inr quota
           \<and> Status quota = ''active''
           \<and> map (\<lambda>q. (Model q, RemainingPercent q)) (ModelQuotas quota) =
               map (\<lambda>(name, fraction). (name, float64_mul fraction (float64_of_int 100)))
                 (fractionsOf models)
           \<and> (\<forall>name.
                 (name, float64_of_decimal 2 5) \<in> set (fractionsOf models) \<longrightarrow>
                 (name, float64_of_int 40)
                   \<in> set (map (\<lambda>q. (Model q, RemainingPercent q)) (ModelQuotas quota)))"
proof -
  let ?quota = "\<lparr>Email = email, ProjectID = projectID, Status = ''active'',
                  ModelQuotas = buildQuotasFromMap_loop models [], Error = [],
                  LastUpdated = now\<rparr>"
  have r: "fst (callQuotaEndpoint lib net now endpoint email projectID accessToken) = Inr ?quota"
    using assms by (auto simp add: callQuotaEndpoint_def buildQuotasFromMap_def)
  have m: "map (\<lambda>q. (Model q, RemainingPercent q)) (ModelQuotas ?quota) =
             map (\<lambda>(name, fraction). (name, float64_mul fraction (float64_of_int 100)))
               (fractionsOf models)"
    by (simp add: buildQuotasFromMap_loop_fractions)
  have p: "(name, float64_of_int 40)
             \<in> set (map (\<lambda>q. (Model q, RemainingPercent q)) (ModelQuotas ?quota))"
    if "(name, float64_of_decimal 2 5) \<in> set (fractionsOf models)" for name
  proof -
    from that have "(name, float64_mul (float64_of_decimal 2 5) (float64_of_int 100))
        \<in> set (map (\<lambda>(name, fraction). (name, float64_mul fraction (float64_of_int 100)))
                  (fractionsOf models))"
      by force
    then show ?thesis
      unfolding m float64_two_fifths_percent .
  qed
  have s: "Status ?quota = ''active''" by simp
  show ?thesis
  proof (intro exI [of _ ?quota] conjI allI impI)
    show "fst (callQuotaEndpoint lib net now endpoint email projectID accessToken) = Inr ?quota"
      by (rule r)
  qed (use s m p in blast)+
qed


text \<open>
  The theorem on a response with two models: one with the remaining fraction 0.4, one
  without quota-info.
\<close>

theorem format_b_remaining_percent_witness:
  "\<exists>quota.
     fst (callQuotaEndpoint exampleLibrary
            (networkOf (\<lambda>endpoint. Inr (plainResponse 200 ''B'')) (\<lambda>modelName. Inl ''unused''))
            0 ''https://cloudcode-pa.googleapis.com/v1internal:fetchAvailableModels''
            ''user@example.com'' ''project-1'' ''token'') = Inr quota
     \<and> Status quota = ''active''
     \<and> map (\<lambda>q. (Model q, RemainingPercent q)) (ModelQuotas quota) =
         [(''gemini-2.5-pro'', float64_of_int 40)]"
proof -
  let ?net = "networkOf (\<lambda>endpoint. Inr (plainResponse 200 ''B'')) (\<lambda>modelName. Inl ''unused'')"
  let ?resp = "plainResponse 200 ''B''"
  have h1: "post_fetchAvailableModels ?net
              ''https://cloudcode-pa.googleapis.com/v1internal:fetchAvailableModels'' ''token'' =
            Inr ?resp"
    by (simp add: networkOf_def)
  have h2: "ReadErr ?resp = None" and h3: "StatusCode ?resp = 200"
    by (simp_all add: plainResponse_def)
  have h4: "Unmarshal_Array exampleLibrary (Body ?resp) = None
              \<or> Unmarshal_Array exampleLibrary (Body ?resp) = Some []"
    by (simp add: exampleLibrary_def)
  have h5: "Unmarshal_Map exampleLibrary (Body ?resp) = Some exampleModels"
    by (simp add: exampleLibrary_def plainResponse_def)
  have h6: "exampleModels \<noteq> []"
    by (simp add: exampleModels_def)
  have f: "fractionsOf exampleModels = [(''gemini-2.5-pro'', float64_of_decimal 2 5)]"
    by (simp add: fractionsOf_def exampleModels_def List.map_filter_simps)
  from format_b_remaining_percent [OF h1 h2 h3 h4 h5 h6, of 0 "''user@example.com''" "''project-1''"]
  show ?thesis
    unfolding f by (auto simp add: float64_two_fifths_percent)
qed

subsection \<open>C9: the unauthorized check comes before the forbidden check\<close>

text \<open>
  Claim C9. For a candidate endpoint that \<open>fetchQuotaForAccount\<close> calls: if the error of
  that call has a message containing "unauthorized" or "access token expired" (whatever
  else the message contains, "forbidden" included), the result is the \<open>inactive\<close>
  re-login Account Quota and the calls made are quota calls only, so the header probe is
  not run. This holds in particular when the endpoint answers 403 with a body that
  contains one of the two substrings, since the forbidden error embeds the body.
\<close>

theorem unauthorized_text_before_forbidden:
  assumes "QuotaCall e accessToken
             \<in> set (snd (fetchQuotaForAccount lib net now email projectID accessToken))"
  shows "(\<forall>err.
            fst (callQuotaEndpoint lib net now e email projectID accessToken) = Inl err
            \<and> (Contains err ''unauthorized'' \<or> Contains err ''access token expired'') \<longrightarrow>
            fetchQuotaForAccount lib net now email projectID accessToken =
              (\<lparr>Email = email, ProjectID = projectID, Status = ''inactive'', ModelQuotas = [],
                Error = ''Access token expired. Please re-login: CLIProxyAPI -antigravity-login'',
                LastUpdated = now\<rparr>,
               map (\<lambda>x. QuotaCall x accessToken) (takeWhile (\<lambda>x. x \<noteq> e) endpoints @ [e])))
         \<and> (\<forall>resp.
              post_fetchAvailableModels net e accessToken = Inr resp
              \<and> ReadErr resp = None \<and> StatusCode resp = 403
              \<and> (Contains (Body resp) ''unauthorized''
                  \<or> Contains (Body resp) ''access token expired'') \<longrightarrow>
              fetchQuotaForAccount lib net now email projectID accessToken =
                (\<lparr>Email = email, ProjectID = projectID, Status = ''inactive'', ModelQuotas = [],
                  Error = ''Access token expired. Please re-login: CLIProxyAPI -antigravity-login'',
                  LastUpdated = now\<rparr>,
                 map (\<lambda>x. QuotaCall x accessToken) (takeWhile (\<lambda>x. x \<noteq> e) endpoints @ [e])))"
proof (intro conjI allI impI)
  fix err
  assume "fst (callQuotaEndpoint lib net now e email projectID accessToken) = Inl err
          \<and> (Contains err ''unauthorized'' \<or> Contains err ''access token expired'')"
  then have c: "fst (callQuotaEndpoint lib net now e email projectID accessToken) = Inl err"
    and u: "Contains err ''unauthorized'' \<or> Contains err ''access token expired''"
    by simp_all
  from loop_unauthorized_reached [OF assms [unfolded fetchQuotaForAccount_def] c u]
  show "fetchQuotaForAccount lib net now email projectID accessToken =
          (\<lparr>Email = email, ProjectID = projectID, Status = ''inactive'', ModelQuotas = [],
            Error = ''Access token expired. Please re-login: CLIProxyAPI -antigravity-login'',
            LastUpdated = now\<rparr>,
           map (\<lambda>x. QuotaCall x accessToken) (takeWhile (\<lambda>x. x \<noteq> e) endpoints @ [e]))"
    by (simp add: fetchQuotaForAccount_def)
next
  fix resp
  assume a: "post_fetchAvailableModels net e accessToken = Inr resp
             \<and> ReadErr resp = None \<and> StatusCode resp = 403
             \<and> (Contains (Body resp) ''unauthorized''
                 \<or> Contains (Body resp) ''access token expired'')"
  then have c: "fst (callQuotaEndpoint lib net now e email projectID accessToken) =
                  Inl (''forbidden: '' @ Body resp)"
    by (simp add: callQuotaEndpoint_403)
  have u: "Contains (''forbidden: '' @ Body resp) ''unauthorized''
             \<or> Contains (''forbidden: '' @ Body resp) ''access token expired''"
    using a Contains_append_right [of "Body resp" _ "''forbidden: ''"] by blast
  from loop_unauthorized_reached [OF assms [unfolded fetchQuotaForAccount_def] c u]
  show "fetchQuotaForAccount lib net now email projectID accessToken =
          (\<lparr>Email = email, ProjectID = projectID, Status = ''inactive'', ModelQuotas = [],
            Error = ''Access token expired. Please re-login: CLIProxyAPI -antigravity-login'',
            LastUpdated = now\<rparr>,
           map (\<lambda>x. QuotaCall x accessToken) (takeWhile (\<lambda>x. x \<noteq> e) endpoints @ [e]))"
    by (simp add: fetchQuotaForAccount_def)
qed

text \<open>
  The theorem on the network whose endpoints answer 403 with the body "unauthorized
  client".
\<close>

theorem unauthorized_text_before_forbidden_witness:
  "QuotaCall (endpoints ! 0) ''token''
     \<in> set (snd (fetchQuotaForAccount exampleLibrary forbiddenUnauthorizedBody 0
                    ''user@example.com'' ''project-1'' ''token''))
   \<and> post_fetchAvailableModels forbiddenUnauthorizedBody (endpoints ! 0) ''token'' =
       Inr (plainResponse 403 ''unauthorized client'')
   \<and> Contains (Body (plainResponse 403 ''unauthorized client'')) ''unauthorized''
   \<and> fetchQuotaForAccount exampleLibrary forbiddenUnauthorizedBody 0 ''user@example.com''
         ''project-1'' ''token'' =
       (\<lparr>Email = ''user@example.com'', ProjectID = ''project-1'', Status = ''inactive'',
         ModelQuotas = [],
         Error = ''Access token expired. Please re-login: CLIProxyAPI -antigravity-login'',
         LastUpdated = 0\<rparr>,
        [QuotaCall (endpoints ! 0) ''token''])"
proof -
  let ?resp = "plainResponse 403 ''unauthorized client''"
  have h1: "QuotaCall (endpoints ! 0) ''token''
              \<in> set (snd (fetchQuotaForAccount exampleLibrary forbiddenUnauthorizedBody 0
                             ''user@example.com'' ''project-1'' ''token''))"
    by (simp only: forbiddenUnauthorizedBody_run snd_conv) simp
  have h2: "post_fetchAvailableModels forbiddenUnauthorizedBody (endpoints ! 0) ''token'' = Inr ?resp"
    by (simp add: forbiddenUnauthorizedBody_def networkOf_def)
  have h3: "ReadErr ?resp = None" and h4: "StatusCode ?resp = 403"
    by (simp_all add: plainResponse_def)
  have h5: "Contains (Body ?resp) ''unauthorized''"
    by (simp add: plainResponse_def)
  have t: "takeWhile (\<lambda>x. x \<noteq> endpoints ! 0) endpoints @ [endpoints ! 0] = [endpoints ! 0]"
    by (simp add: endpoints_def)
  from unauthorized_text_before_forbidden [OF h1]
  have "post_fetchAvailableModels forbiddenUnauthorizedBody (endpoints ! 0) ''token'' = Inr ?resp
          \<and> ReadErr ?resp = None \<and> StatusCode ?resp = 403
          \<and> (Contains (Body ?resp) ''unauthorized'' \<or> Contains (Body ?resp) ''access token expired'')
        \<longrightarrow> fetchQuotaForAccount exampleLibrary forbiddenUnauthorizedBody 0 ''user@example.com''
              ''project-1'' ''token'' =
            (\<lparr>Email = ''user@example.com'', ProjectID = ''project-1'', Status = ''inactive'',
              ModelQuotas = [],
              Error = ''Access token expired. Please re-login: CLIProxyAPI -antigravity-login'',
              LastUpdated = 0\<rparr>,
             map (\<lambda>x. QuotaCall x ''token'')
               (takeWhile (\<lambda>x. x \<noteq> endpoints ! 0) endpoints @ [endpoints ! 0]))"
    by blast
  with h1 h2 h3 h4 h5 show ?thesis
    by (simp only: t list.map simp_thms)
qed

subsection \<open>C10: the header probe does not look at the status code\<close>

text \<open>
  Claim C10. For a generation response of any status code: if it carries both rate-limit
  headers, the limit scans as an int other than zero and the remaining count scans as an
  int, \<open>extractQuotaForModel\<close> returns a Model Quota entry for the model; if a header is
  missing (or empty), the limit is zero or does not scan, or the remaining count does not
  scan, it returns no entry and no error. The result does not change when the status code,
  the body or the read error of the response change.
\<close>

theorem header_probe_ignores_status:
  assumes "post_generateContent net (generateEndpoint email projectID) accessToken projectID
             modelName = Inr resp"
  shows "(usableHeaders lib resp \<longrightarrow>
            (\<exists>q. fst (extractQuotaForModel lib net email projectID accessToken modelName)
                    = Inr (Some q)
                  \<and> Model q = modelName))
         \<and> (\<not> usableHeaders lib resp \<longrightarrow>
              fst (extractQuotaForModel lib net email projectID accessToken modelName) = Inr None)
         \<and> (\<forall>(net' :: Network) code body readErr.
              post_generateContent net' (generateEndpoint email projectID) accessToken projectID
                modelName = Inr (resp\<lparr>StatusCode := code, Body := body, ReadErr := readErr\<rparr>) \<longrightarrow>
              extractQuotaForModel lib net' email projectID accessToken modelName =
              extractQuotaForModel lib net email projectID accessToken modelName)"
proof (intro conjI impI allI)
  assume "usableHeaders lib resp"
  from extract_usable [OF assms this]
  show "\<exists>q. fst (extractQuotaForModel lib net email projectID accessToken modelName) = Inr (Some q)
              \<and> Model q = modelName"
    by blast
next
  assume "\<not> usableHeaders lib resp"
  from extract_unusable [OF assms this]
  show "fst (extractQuotaForModel lib net email projectID accessToken modelName) = Inr None" .
next
  fix net' :: Network and code body readErr
  assume "post_generateContent net' (generateEndpoint email projectID) accessToken projectID
            modelName = Inr (resp\<lparr>StatusCode := code, Body := body, ReadErr := readErr\<rparr>)"
  then show "extractQuotaForModel lib net' email projectID accessToken modelName =
             extractQuotaForModel lib net email projectID accessToken modelName"
    using assms by (simp add: extractQuotaForModel_def)
qed

text \<open>
  The theorem on a response of status 429 with the headers 100 and 25, and on a response of
  status 200 whose limit is 0.
\<close>

theorem header_probe_ignores_status_witness:
  "usableHeaders exampleLibrary (rateLimitResponse 429 ''100'' ''25'')
   \<and> fst (extractQuotaForModel exampleLibrary
             (networkOf (\<lambda>endpoint. Inr (plainResponse 403 ''denied''))
                (\<lambda>modelName. Inr (rateLimitResponse 429 ''100'' ''25'')))
             ''user@example.com'' ''project-1'' ''token'' ''gemini-2.5-pro'')
       = Inr (Some \<lparr>Model = ''gemini-2.5-pro'', DisplayName = ''Gemini 2.5 Pro'',
                     RemainingPercent = float64_of_int 25, ResetTime = []\<rparr>)
   \<and> \<not> usableHeaders exampleLibrary (rateLimitResponse 200 ''0'' ''25'')
   \<and> fst (extractQuotaForModel exampleLibrary
             (networkOf (\<lambda>endpoint. Inr (plainResponse 403 ''denied''))
                (\<lambda>modelName. Inr (rateLimitResponse 200 ''0'' ''25'')))
             ''user@example.com'' ''project-1'' ''token'' ''gemini-2.5-pro'')
       = Inr None"
proof -
  let ?good = "networkOf (\<lambda>endpoint. Inr (plainResponse 403 ''denied''))
                 (\<lambda>modelName. Inr (rateLimitResponse 429 ''100'' ''25''))"
  let ?bad = "networkOf (\<lambda>endpoint. Inr (plainResponse 403 ''denied''))
                (\<lambda>modelName. Inr (rateLimitResponse 200 ''0'' ''25''))"
  have g: "post_generateContent ?good (generateEndpoint ''user@example.com'' ''project-1'')
             ''token'' ''project-1'' ''gemini-2.5-pro'' = Inr (rateLimitResponse 429 ''100'' ''25'')"
    by (simp add: networkOf_def)
  have b: "post_generateContent ?bad (generateEndpoint ''user@example.com'' ''project-1'')
             ''token'' ''project-1'' ''gemini-2.5-pro'' = Inr (rateLimitResponse 200 ''0'' ''25'')"
    by (simp add: networkOf_def)
  have ug: "usableHeaders exampleLibrary (rateLimitResponse 429 ''100'' ''25'')"
    by (simp add: usableHeaders_def exampleLibrary_def rateLimitResponse_def digitValue_def)
  have ub: "\<not> usableHeaders exampleLibrary (rateLimitResponse 200 ''0'' ''25'')"
    by (simp add: usableHeaders_def exampleLibrary_def rateLimitResponse_def digitValue_def)
  from header_probe_ignores_status [OF g, of exampleLibrary] ug
  obtain q where q:
    "fst (extractQuotaForModel exampleLibrary ?good ''user@example.com'' ''project-1'' ''token''
            ''gemini-2.5-pro'') = Inr (Some q)"
    by blast
  have "q = \<lparr>Model = ''gemini-2.5-pro'', DisplayName = ''Gemini 2.5 Pro'',
             RemainingPercent = float64_of_int 25, ResetTime = []\<rparr>"
    using q g
    by (simp add: extractQuotaForModel_def exampleLibrary_def rateLimitResponse_def digitValue_def
        extractQuotaForModel_displayName_def float64_quarter_percent)
  with q header_probe_ignores_status [OF b, of exampleLibrary] ug ub
  show ?thesis by simp
qed

end
